theory Spec2Isabelle
  imports Main "HOL-Library.Word"
begin

unbundle bit_operations_syntax

section \<open>Data model\<close>

text \<open>
  The passphrase key store (package \<open>crypto\<close>, file \<open>src/unnamed/part_000\<close>).
  Byte slices are lists of 8-bit words; a Go \<open>string\<close> is a list of 8-bit characters.
  An address (\<open>common.Address\<close>, a fixed byte array sliced with \<open>[:]\<close>) is the list
  of its bytes. Go's \<open>int\<close> is taken to be the 64-bit one and is modelled by \<open>int\<close>,
  the range written out where a conversion depends on it.
\<close>

type_synonym byte = "8 word"
type_synonym bytes = "byte list"
type_synonym address = bytes

text \<open>
  A finite \<open>float64\<close> is a mantissa and a binary exponent: \<open>Float64 m e\<close> stands for
  \<open>m * 2 ^ e\<close> (so 2.5 is \<open>Float64 5 (- 1)\<close> and 4096 is \<open>Float64 4096 0\<close>).
  The JSON decoder never produces an infinity or a NaN.
\<close>

datatype float64 = Float64 int int

datatype json =
    JNull
  | JBool bool
  | JNum float64
  | JStr string
  | JArr "json list"
  | JObj "string \<Rightarrow> json option"

text \<open>
  The dynamic values of a \<open>map[string]interface{}\<close>: the nil interface (also what a
  lookup of an absent key yields), and the dynamic types \<open>bool\<close>, \<open>int\<close>,
  \<open>float64\<close> and \<open>string\<close>; a nested array or object is kept as its JSON value.
\<close>

datatype iface =
    INil
  | IBool bool
  | IInt int
  | IFloat float64
  | IString string
  | IComposite json

text \<open>
  Errors as values. The first group are the errors the source itself builds
  (\<open>fmt.Errorf\<close>, \<open>errors.New\<close>) or passes on from a library call; \<open>Panic\<close> is a
  run-time panic (a failed type assertion, a slice bound out of range, the panic of
  \<open>cipher.NewCTR\<close> or of the entropy reader), which is no error return. The last group
  are the failures of the storage collaborator, named as the specification names them.
\<close>

datatype error =
    VersionNotSupported int
  | CipherNotSupported string
  | HexDecodeError
  | UnsupportedPRF string
  | UnsupportedKDF string
  | MACMismatch
  | ScryptError
  | AesKeySizeError
  | Panic
  | FileNotFound
  | MalformedEnvelope
  | StorageIOFailure

text \<open>
  The structs of the source. The fields of \<open>encryptedKeyJSON\<close> (\<open>Address\<close>, \<open>Crypto\<close>,
  \<open>Id\<close>, \<open>Version\<close>) carry the prefix \<open>ek\<close> and those of \<open>Key\<close> the prefix \<open>Key_\<close>,
  the two structs sharing field names; the constants \<open>scryptR\<close> and \<open>scryptDKLen\<close>
  carry the suffix \<open>_const\<close>, to tell them from the fields of the key store.
\<close>

record cipherparamsJSON =
  IV :: string

record cryptoJSON =
  Cipher :: string
  CipherText :: string
  CipherParams :: cipherparamsJSON
  KDF :: string
  KDFParams :: "string \<Rightarrow> iface option"
  MAC :: string

record encryptedKeyJSON =
  ekAddress :: string
  ekCrypto :: cryptoJSON
  ekId :: string
  ekVersion :: int

record Key =
  Key_Id :: bytes
  Key_Address :: address
  Key_PrivateKey :: bytes

record keyStorePassphrase =
  keysDirPath :: string
  scryptN :: int
  scryptP :: int
  scryptR :: int
  scryptDKLen :: int

text \<open>
  The library functions the source calls and whose code is not part of the repository
  are parameters of the model: \<open>scrypt.Key\<close> (which returns an error for parameters it
  rejects: \<open>None\<close>), \<open>pbkdf2.Key\<close> with \<open>sha256.New\<close>, the Keccak-256 digest behind
  \<open>Sha3\<close>, the key stream of AES in counter mode (the byte at each position, for a key
  and an IV), \<open>uuid.Parse\<close> (nil, the empty slice, for a string it does not accept),
  \<open>UUID.String\<close>, and the value a conversion \<open>int(f)\<close> yields for a \<open>float64\<close> outside the
  range of \<open>int\<close>, which the language leaves to the implementation. The source reads
  a derived key only through the slice expressions \<open>[:16]\<close> and \<open>[16:32]\<close>, which reach
  up to the capacity of the slice: the two key derivations yield the bytes of the
  returned slice up to its capacity.
\<close>

record ext =
  scrypt_Key :: "bytes \<Rightarrow> bytes \<Rightarrow> int \<Rightarrow> int \<Rightarrow> int \<Rightarrow> int \<Rightarrow> bytes option"
  pbkdf2_Key :: "bytes \<Rightarrow> bytes \<Rightarrow> int \<Rightarrow> int \<Rightarrow> bytes"
  keccak256 :: "bytes \<Rightarrow> bytes"
  aes_ctr_keystream :: "bytes \<Rightarrow> bytes \<Rightarrow> nat \<Rightarrow> byte"
  uuid_Parse :: "string \<Rightarrow> bytes"
  uuid_String :: "bytes \<Rightarrow> string"
  float64_to_int_oor :: "float64 \<Rightarrow> int"

section \<open>Constants and construction\<close>

text \<open>
  The \<open>const\<close> block: \<open>keyHeaderKDF\<close> is its first entry, so \<open>iota\<close> is 1 at
  \<open>KDFStandard\<close> and 2 at \<open>KDFLight\<close>.
\<close>

definition keyHeaderKDF :: string where
  "keyHeaderKDF = ''scrypt''"

definition KDFStandard :: int where
  "KDFStandard = 1"

definition KDFLight :: int where
  "KDFLight = 2"

definition stdScryptN :: int where
  "stdScryptN = push_bit 18 1"

definition stdScryptP :: int where
  "stdScryptP = 1"

definition lightScryptN :: int where
  "lightScryptN = push_bit 12 1"

definition lightScryptP :: int where
  "lightScryptP = 6"

definition scryptR_const :: int where
  "scryptR_const = 8"

definition scryptDKLen_const :: int where
  "scryptDKLen_const = 32"

text \<open>
  Modelled from the spec: the constant \<open>version\<close> is defined elsewhere in the repository;
  the specification gives the single supported format version as 3.
\<close>

definition version :: int where
  "version = 3"

definition NewKeyStorePassphrase :: "string \<Rightarrow> int \<Rightarrow> keyStorePassphrase" where
  "NewKeyStorePassphrase path safety =
     (if safety = KDFStandard
      then \<lparr>keysDirPath = path, scryptN = stdScryptN, scryptP = stdScryptP,
            scryptR = scryptR_const, scryptDKLen = scryptDKLen_const\<rparr>
      else \<lparr>keysDirPath = path, scryptN = lightScryptN, scryptP = lightScryptP,
            scryptR = scryptR_const, scryptDKLen = scryptDKLen_const\<rparr>)"

section \<open>Numeric KDF parameters\<close>

text \<open>
  The conversion \<open>int(f)\<close> of a \<open>float64\<close> drops the fraction (truncation towards
  zero). Outside the range of a 64-bit \<open>int\<close> the conversion still succeeds, with a
  value the implementation chooses.
\<close>

fun float64_trunc :: "float64 \<Rightarrow> int" where
  "float64_trunc (Float64 m e) =
     (if 0 \<le> e then m * 2 ^ nat e
      else if 0 \<le> m then m div 2 ^ nat (- e)
      else - ((- m) div 2 ^ nat (- e)))"

fun float64_integral :: "float64 \<Rightarrow> bool" where
  "float64_integral (Float64 m e) = (0 \<le> e \<or> m mod 2 ^ nat (- e) = 0)"

definition int_in_range :: "int \<Rightarrow> bool" where
  "int_in_range n = (- (2 ^ 63) \<le> n \<and> n < 2 ^ 63)"

definition int_of_float64 :: "ext \<Rightarrow> float64 \<Rightarrow> int" where
  "int_of_float64 X f =
     (if int_in_range (float64_trunc f) then float64_trunc f else float64_to_int_oor X f)"

text \<open>
  \<open>ensureInt\<close>: the assertion \<open>x.(int)\<close> with the comma-ok form never panics; the
  assertion \<open>x.(float64)\<close> panics for every other dynamic type and for nil.
\<close>

fun ensureInt :: "ext \<Rightarrow> iface \<Rightarrow> error + int" where
  "ensureInt X (IInt n) = Inr n"
| "ensureInt X (IFloat f) = Inr (int_of_float64 X f)"
| "ensureInt X INil = Inl Panic"
| "ensureInt X (IBool b) = Inl Panic"
| "ensureInt X (IString s) = Inl Panic"
| "ensureInt X (IComposite j) = Inl Panic"

section \<open>Hexadecimal strings and slices\<close>

text \<open>
  \<open>encoding/hex\<close> of the standard library. \<open>EncodeToString\<close> writes two lower-case
  digits for each byte, \<open>hextable[v >> 4]\<close> and \<open>hextable[v & 0x0f]\<close>; \<open>DecodeString\<close>
  accepts digits of both cases and returns an error (\<open>ErrLength\<close> or an
  \<open>InvalidByteError\<close>, one value here) for a string of odd length or with a character
  that is no digit. Each decoded byte is \<open>(a << 4) | b\<close>.
\<close>

definition hextable :: string where
  "hextable = ''0123456789abcdef''"

definition fromHexChar :: "char \<Rightarrow> byte option" where
  "fromHexChar c =
     (let n = (of_char c :: nat) in
      if 48 \<le> n \<and> n \<le> 57 then Some (of_nat (n - 48))
      else if 97 \<le> n \<and> n \<le> 102 then Some (of_nat (n - 97 + 10))
      else if 65 \<le> n \<and> n \<le> 70 then Some (of_nat (n - 65 + 10))
      else None)"

definition hex_byte :: "byte \<Rightarrow> string" where
  "hex_byte v = [hextable ! unat (drop_bit 4 v), hextable ! unat (v AND 15)]"

definition hex_EncodeToString :: "bytes \<Rightarrow> string" where
  "hex_EncodeToString src = concat (map hex_byte src)"

fun hex_DecodeString :: "string \<Rightarrow> error + bytes" where
  "hex_DecodeString [] = Inr []"
| "hex_DecodeString [p] = Inl HexDecodeError"
| "hex_DecodeString (p # q # rest) =
     (case fromHexChar p of
        None \<Rightarrow> Inl HexDecodeError
      | Some a \<Rightarrow>
          (case fromHexChar q of
             None \<Rightarrow> Inl HexDecodeError
           | Some b \<Rightarrow>
               (case hex_DecodeString rest of
                  Inl e \<Rightarrow> Inl e
                | Inr bs \<Rightarrow> Inr ((push_bit 4 a OR b) # bs))))"

text \<open>The conversion \<open>[]byte(auth)\<close> of a string to its bytes.\<close>

definition bytes_of_string :: "string \<Rightarrow> bytes" where
  "bytes_of_string s = map (\<lambda>c. of_nat (of_char c)) s"

text \<open>
  The slice expression \<open>s[lo:hi]\<close> of a slice panics unless \<open>lo \<le> hi \<le> cap(s)\<close>; the
  list \<open>s\<close> holds the bytes up to the capacity.
\<close>

definition slice :: "bytes \<Rightarrow> nat \<Rightarrow> nat \<Rightarrow> error + bytes" where
  "slice s lo hi = (if lo \<le> hi \<and> hi \<le> length s then Inr (take (hi - lo) (drop lo s)) else Inl Panic)"

text \<open>
  A type assertion \<open>x.(string)\<close> without the comma-ok form panics unless the dynamic
  type is \<open>string\<close>. A map index expression yields nil for an absent key.
\<close>

fun assert_string :: "iface \<Rightarrow> error + string" where
  "assert_string (IString s) = Inr s"
| "assert_string INil = Inl Panic"
| "assert_string (IBool b) = Inl Panic"
| "assert_string (IInt n) = Inl Panic"
| "assert_string (IFloat f) = Inl Panic"
| "assert_string (IComposite j) = Inl Panic"

definition map_index :: "(string \<Rightarrow> iface option) \<Rightarrow> string \<Rightarrow> iface" where
  "map_index m k = (case m k of None \<Rightarrow> INil | Some v \<Rightarrow> v)"

section \<open>Cipher and MAC\<close>

text \<open>
  Modelled from the spec: \<open>aesCTRXOR\<close> is defined elsewhere in the repository. The
  specification (4.2) gives it as the stream transform of counter mode over a 128-bit
  block cipher: the output is the input XORed with a key stream fixed by key and IV,
  of the input's length; the key has 16 bytes, and an IV of any other length than the
  block size, 16, is a hard failure (in Go, the panic of \<open>cipher.NewCTR\<close>).
\<close>

definition aesCTRXOR :: "ext \<Rightarrow> bytes \<Rightarrow> bytes \<Rightarrow> bytes \<Rightarrow> error + bytes" where
  "aesCTRXOR X key inText iv =
     (if length key \<noteq> 16 then Inl AesKeySizeError
      else if length iv \<noteq> 16 then Inl Panic
      else Inr (map (\<lambda>(i, b). b XOR aes_ctr_keystream X key iv i)
                  (zip [0..<length inText] inText)))"

text \<open>
  Modelled from the spec: \<open>Sha3\<close> is defined elsewhere in the repository. The
  specification (4.3) gives the tag as a cryptographic hash over the concatenation of
  the pieces it is given, here the MAC key and the ciphertext.
\<close>

definition Sha3 :: "ext \<Rightarrow> bytes list \<Rightarrow> bytes" where
  "Sha3 X data = keccak256 X (concat data)"

text \<open>
  Modelled from the spec: \<open>FromECDSA\<close> and \<open>ToECDSA\<close> are defined elsewhere in the
  repository. The specification takes the private key as an opaque byte sequence, so the key
  is its bytes and both conversions keep them.
\<close>

definition FromECDSA :: "bytes \<Rightarrow> bytes" where
  "FromECDSA prv = prv"

definition ToECDSA :: "bytes \<Rightarrow> bytes" where
  "ToECDSA prv = prv"

section \<open>Key derivation and decryption\<close>

text \<open>
  The read path records the cryptographic operations it performs, in order: a key
  derivation (a call of \<open>scrypt.Key\<close> or \<open>pbkdf2.Key\<close>), the computation of the MAC
  (the call of \<open>Sha3\<close>), and the cipher (the call of \<open>aesCTRXOR\<close>). A function of the
  read path returns this record beside its result.
\<close>

datatype crypto_op = OpKDF | OpMAC | OpCipher

definition getKDFKey :: "ext \<Rightarrow> cryptoJSON \<Rightarrow> string \<Rightarrow> crypto_op list \<times> (error + bytes)" where
  "getKDFKey X cj auth =
     (let authArray = bytes_of_string auth in
      case assert_string (map_index (KDFParams cj) ''salt'') of
        Inl e \<Rightarrow> ([], Inl e)
      | Inr saltHex \<Rightarrow>
     (case hex_DecodeString saltHex of
        Inl e \<Rightarrow> ([], Inl e)
      | Inr salt \<Rightarrow>
     (case ensureInt X (map_index (KDFParams cj) ''dklen'') of
        Inl e \<Rightarrow> ([], Inl e)
      | Inr dkLen \<Rightarrow>
      if KDF cj = ''scrypt'' then
        (case ensureInt X (map_index (KDFParams cj) ''n'') of
           Inl e \<Rightarrow> ([], Inl e)
         | Inr n \<Rightarrow>
        (case ensureInt X (map_index (KDFParams cj) ''r'') of
           Inl e \<Rightarrow> ([], Inl e)
         | Inr r \<Rightarrow>
        (case ensureInt X (map_index (KDFParams cj) ''p'') of
           Inl e \<Rightarrow> ([], Inl e)
         | Inr p \<Rightarrow>
             ([OpKDF],
              case scrypt_Key X authArray salt n r p dkLen of
                None \<Rightarrow> Inl ScryptError
              | Some key \<Rightarrow> Inr key))))
      else if KDF cj = ''pbkdf2'' then
        (case ensureInt X (map_index (KDFParams cj) ''c'') of
           Inl e \<Rightarrow> ([], Inl e)
         | Inr c \<Rightarrow>
        (case assert_string (map_index (KDFParams cj) ''prf'') of
           Inl e \<Rightarrow> ([], Inl e)
         | Inr prf \<Rightarrow>
             if prf \<noteq> ''hmac-sha256'' then ([], Inl (UnsupportedPRF prf))
             else ([OpKDF], Inr (pbkdf2_Key X authArray salt c dkLen))))
      else ([], Inl (UnsupportedKDF (KDF cj))))))"

definition decryptKey ::
  "ext \<Rightarrow> encryptedKeyJSON \<Rightarrow> string \<Rightarrow> crypto_op list \<times> (error + bytes \<times> bytes)" where
  "decryptKey X keyProtected auth =
     (if ekVersion keyProtected \<noteq> version
      then ([], Inl (VersionNotSupported (ekVersion keyProtected)))
      else if Cipher (ekCrypto keyProtected) \<noteq> ''aes-128-ctr''
      then ([], Inl (CipherNotSupported (Cipher (ekCrypto keyProtected))))
      else
        let keyId = uuid_Parse X (ekId keyProtected) in
        case hex_DecodeString (MAC (ekCrypto keyProtected)) of
          Inl e \<Rightarrow> ([], Inl e)
        | Inr mac \<Rightarrow>
       (case hex_DecodeString (IV (CipherParams (ekCrypto keyProtected))) of
          Inl e \<Rightarrow> ([], Inl e)
        | Inr iv \<Rightarrow>
       (case hex_DecodeString (CipherText (ekCrypto keyProtected)) of
          Inl e \<Rightarrow> ([], Inl e)
        | Inr cipherText \<Rightarrow>
       (case getKDFKey X (ekCrypto keyProtected) auth of
          (t, Inl e) \<Rightarrow> (t, Inl e)
        | (t, Inr derivedKey) \<Rightarrow>
       (case slice derivedKey 16 32 of
          Inl e \<Rightarrow> (t, Inl e)
        | Inr macKey \<Rightarrow>
          let calculatedMAC = Sha3 X [macKey, cipherText] in
          if calculatedMAC \<noteq> mac then (t @ [OpMAC], Inl MACMismatch)
          else
           (case slice derivedKey 0 16 of
              Inl e \<Rightarrow> (t @ [OpMAC], Inl e)
            | Inr encryptKey \<Rightarrow>
               (t @ [OpMAC, OpCipher],
                case aesCTRXOR X encryptKey cipherText iv of
                  Inl e \<Rightarrow> Inl e
                | Inr plainText \<Rightarrow> Inr (plainText, keyId))))))))"

section \<open>Storage and the JSON envelope\<close>

text \<open>
  The state outside the key store: the stored files, by directory and address; the
  locations at which the storage refuses a write or a removal; and the bytes the
  entropy source is going to deliver.
\<close>

record world =
  files :: "string \<times> address \<Rightarrow> json option"
  io_fails :: "string \<times> address \<Rightarrow> bool"
  entropy :: bytes

text \<open>
  Modelled from the spec: \<open>randentropy.GetEntropyCSPRNG\<close> is defined elsewhere in the
  repository. The specification (6) gives the source as \<open>read(n)\<close>, \<open>n\<close> random bytes,
  failing only on a catastrophic error of the entropy source; the failure is a panic.
\<close>

definition GetEntropyCSPRNG :: "nat \<Rightarrow> world \<Rightarrow> error + bytes \<times> world" where
  "GetEntropyCSPRNG n w =
     (if length (entropy w) < n then Inl Panic
      else Inr (take n (entropy w), w\<lparr>entropy := drop n (entropy w)\<rparr>))"

text \<open>
  Modelled from the spec: \<open>writeKeyFile\<close>, \<open>deleteKey\<close> and the reading half of
  \<open>getKey\<close> are defined elsewhere in the repository. The specification (6) gives the
  storage collaborator as \<open>write(address, bytes)\<close>, \<open>read(address) -> bytes | NotFound\<close>
  and \<open>delete(address)\<close>, with the failure \<open>StorageIOFailure\<close>. A file is held as the
  JSON value its text denotes; the order of the members of an object carries no
  meaning, so an object is the map of its members.
\<close>

definition getKeyFile :: "world \<Rightarrow> string \<Rightarrow> address \<Rightarrow> error + json" where
  "getKeyFile w dirPath keyAddr =
     (case files w (dirPath, keyAddr) of None \<Rightarrow> Inl FileNotFound | Some content \<Rightarrow> Inr content)"

definition writeKeyFile :: "address \<Rightarrow> string \<Rightarrow> json \<Rightarrow> world \<Rightarrow> error option \<times> world" where
  "writeKeyFile addr dirPath content w =
     (if io_fails w (dirPath, addr) then (Some StorageIOFailure, w)
      else (None, w\<lparr>files := (files w)((dirPath, addr) \<mapsto> content)\<rparr>))"

definition deleteKey :: "string \<Rightarrow> address \<Rightarrow> world \<Rightarrow> error option \<times> world" where
  "deleteKey dirPath keyAddr w =
     (if io_fails w (dirPath, keyAddr) then (Some StorageIOFailure, w)
      else (None, w\<lparr>files := (files w)((dirPath, keyAddr) := None)\<rparr>))"

text \<open>
  Modelled from the spec: the envelope types and the decoding half of \<open>getKey\<close>
  are defined elsewhere in the repository. The specification (6) gives the on-disk
  object: \<open>address\<close>, \<open>crypto\<close> (\<open>cipher\<close>, \<open>ciphertext\<close>, \<open>cipherparams.iv\<close>, \<open>kdf\<close>,
  \<open>kdfparams\<close>, \<open>mac\<close>), \<open>id\<close> and \<open>version\<close>. Serialisation writes every field; an
  \<open>int\<close> of the parameter map is written as a JSON number. Deserialisation (4.4)
  requires \<open>version\<close>, \<open>id\<close>, \<open>address\<close>, \<open>crypto.cipher\<close> and \<open>crypto.kdf\<close>, the absence
  of any being \<open>MalformedEnvelope\<close>, as is a member of the wrong JSON type; any other
  field that is absent keeps its zero value. The generic decoder yields a \<open>float64\<close>
  for every JSON number, which is how the numbers of \<open>kdfparams\<close> arrive.
\<close>

fun iface_to_json :: "iface \<Rightarrow> json" where
  "iface_to_json INil = JNull"
| "iface_to_json (IBool b) = JBool b"
| "iface_to_json (IInt n) = JNum (Float64 n 0)"
| "iface_to_json (IFloat f) = JNum f"
| "iface_to_json (IString s) = JStr s"
| "iface_to_json (IComposite j) = j"

fun json_to_iface :: "json \<Rightarrow> iface" where
  "json_to_iface JNull = INil"
| "json_to_iface (JBool b) = IBool b"
| "json_to_iface (JNum f) = IFloat f"
| "json_to_iface (JStr s) = IString s"
| "json_to_iface (JArr xs) = IComposite (JArr xs)"
| "json_to_iface (JObj m) = IComposite (JObj m)"

definition marshal_cryptoJSON :: "cryptoJSON \<Rightarrow> json" where
  "marshal_cryptoJSON c =
     JObj [''cipher'' \<mapsto> JStr (Cipher c),
           ''ciphertext'' \<mapsto> JStr (CipherText c),
           ''cipherparams'' \<mapsto> JObj [''iv'' \<mapsto> JStr (IV (CipherParams c))],
           ''kdf'' \<mapsto> JStr (KDF c),
           ''kdfparams'' \<mapsto> JObj (\<lambda>k. map_option iface_to_json (KDFParams c k)),
           ''mac'' \<mapsto> JStr (MAC c)]"

definition json_Marshal :: "encryptedKeyJSON \<Rightarrow> json" where
  "json_Marshal k =
     JObj [''address'' \<mapsto> JStr (ekAddress k),
           ''crypto'' \<mapsto> marshal_cryptoJSON (ekCrypto k),
           ''id'' \<mapsto> JStr (ekId k),
           ''version'' \<mapsto> JNum (Float64 (ekVersion k) 0)]"

fun req_string :: "json option \<Rightarrow> string option" where
  "req_string (Some (JStr s)) = Some s"
| "req_string _ = None"

fun opt_string :: "json option \<Rightarrow> string option" where
  "opt_string None = Some []"
| "opt_string (Some (JStr s)) = Some s"
| "opt_string (Some _) = None"

fun req_int :: "json option \<Rightarrow> int option" where
  "req_int (Some (JNum f)) =
     (if float64_integral f \<and> int_in_range (float64_trunc f) then Some (float64_trunc f) else None)"
| "req_int _ = None"

fun unmarshal_cipherparamsJSON :: "json option \<Rightarrow> cipherparamsJSON option" where
  "unmarshal_cipherparamsJSON None = Some \<lparr>IV = []\<rparr>"
| "unmarshal_cipherparamsJSON (Some (JObj m)) = map_option (\<lambda>s. \<lparr>IV = s\<rparr>) (opt_string (m ''iv''))"
| "unmarshal_cipherparamsJSON (Some _) = None"

fun unmarshal_KDFParams :: "json option \<Rightarrow> (string \<Rightarrow> iface option) option" where
  "unmarshal_KDFParams None = Some (\<lambda>k. None)"
| "unmarshal_KDFParams (Some (JObj m)) = Some (\<lambda>k. map_option json_to_iface (m k))"
| "unmarshal_KDFParams (Some _) = None"

fun unmarshal_cryptoJSON :: "json option \<Rightarrow> cryptoJSON option" where
  "unmarshal_cryptoJSON (Some (JObj c)) =
     Option.bind (req_string (c ''cipher'')) (\<lambda>cipher.
     Option.bind (opt_string (c ''ciphertext'')) (\<lambda>cipherText.
     Option.bind (unmarshal_cipherparamsJSON (c ''cipherparams'')) (\<lambda>cipherParams.
     Option.bind (req_string (c ''kdf'')) (\<lambda>kdf.
     Option.bind (unmarshal_KDFParams (c ''kdfparams'')) (\<lambda>kdfParams.
     Option.bind (opt_string (c ''mac'')) (\<lambda>mac.
       Some \<lparr>Cipher = cipher, CipherText = cipherText, CipherParams = cipherParams,
             KDF = kdf, KDFParams = kdfParams, MAC = mac\<rparr>))))))"
| "unmarshal_cryptoJSON _ = None"

fun unmarshal_encryptedKeyJSON :: "json \<Rightarrow> encryptedKeyJSON option" where
  "unmarshal_encryptedKeyJSON (JObj m) =
     Option.bind (req_string (m ''address'')) (\<lambda>addr.
     Option.bind (unmarshal_cryptoJSON (m ''crypto'')) (\<lambda>crypto.
     Option.bind (req_string (m ''id'')) (\<lambda>i.
     Option.bind (req_int (m ''version'')) (\<lambda>v.
       Some \<lparr>ekAddress = addr, ekCrypto = crypto, ekId = i, ekVersion = v\<rparr>))))"
| "unmarshal_encryptedKeyJSON _ = None"

text \<open>
  \<open>getKey\<close> reads the file and decodes it into what its last argument points to: a
  generic map at the first call of \<open>decryptKeyFromFile\<close>, an envelope at the second.
\<close>

definition getKey_map :: "world \<Rightarrow> string \<Rightarrow> address \<Rightarrow> error + (string \<Rightarrow> iface option)" where
  "getKey_map w dirPath keyAddr =
     (case getKeyFile w dirPath keyAddr of
        Inl e \<Rightarrow> Inl e
      | Inr (JObj m) \<Rightarrow> Inr (\<lambda>k. map_option json_to_iface (m k))
      | Inr _ \<Rightarrow> Inl MalformedEnvelope)"

definition getKey_envelope :: "world \<Rightarrow> string \<Rightarrow> address \<Rightarrow> error + encryptedKeyJSON" where
  "getKey_envelope w dirPath keyAddr =
     (case getKeyFile w dirPath keyAddr of
        Inl e \<Rightarrow> Inl e
      | Inr content \<Rightarrow>
          (case unmarshal_encryptedKeyJSON content of
             None \<Rightarrow> Inl MalformedEnvelope
           | Some k \<Rightarrow> Inr k))"

section \<open>The operations of the key store\<close>

definition decryptKeyFromFile ::
  "ext \<Rightarrow> world \<Rightarrow> string \<Rightarrow> address \<Rightarrow> string \<Rightarrow> crypto_op list \<times> (error + bytes \<times> bytes)" where
  "decryptKeyFromFile X w dirPath keyAddr auth =
     (case getKey_map w dirPath keyAddr of
        Inl e \<Rightarrow> ([], Inl e)
      | Inr m \<Rightarrow>
          (case getKey_envelope w dirPath keyAddr of
             Inl e \<Rightarrow> ([], Inl e)
           | Inr k \<Rightarrow> decryptKey X k auth))"

definition GetKey ::
  "ext \<Rightarrow> keyStorePassphrase \<Rightarrow> world \<Rightarrow> address \<Rightarrow> string \<Rightarrow> crypto_op list \<times> (error + Key)" where
  "GetKey X ks w keyAddr auth =
     (case decryptKeyFromFile X w (keysDirPath ks) keyAddr auth of
        (t, Inl err) \<Rightarrow> (t, Inl err)
      | (t, Inr (keyBytes, keyId)) \<Rightarrow>
          (t, Inr \<lparr>Key_Id = keyId, Key_Address = keyAddr, Key_PrivateKey = ToECDSA keyBytes\<rparr>))"

text \<open>
  \<open>StoreKey\<close> returns its error, \<open>None\<close> for nil, and the state it leaves.
  \<open>json.Marshal\<close> has no error for an envelope of strings and integers.
\<close>

definition StoreKey :: "ext \<Rightarrow> keyStorePassphrase \<Rightarrow> Key \<Rightarrow> string \<Rightarrow> world \<Rightarrow> error option \<times> world" where
  "StoreKey X ks key auth w =
     (let authArray = bytes_of_string auth in
      case GetEntropyCSPRNG 32 w of
        Inl e \<Rightarrow> (Some e, w)
      | Inr (salt, w1) \<Rightarrow>
     (case scrypt_Key X authArray salt (scryptN ks) (scryptR ks) (scryptP ks) (scryptDKLen ks) of
        None \<Rightarrow> (Some ScryptError, w1)
      | Some derivedKey \<Rightarrow>
     (case slice derivedKey 0 16 of
        Inl e \<Rightarrow> (Some e, w1)
      | Inr encryptKey \<Rightarrow>
        let keyBytes = FromECDSA (Key_PrivateKey key) in
        case GetEntropyCSPRNG 16 w1 of
          Inl e \<Rightarrow> (Some e, w1)
        | Inr (iv, w2) \<Rightarrow>
       (case aesCTRXOR X encryptKey keyBytes iv of
          Inl e \<Rightarrow> (Some e, w2)
        | Inr cipherText \<Rightarrow>
       (case slice derivedKey 16 32 of
          Inl e \<Rightarrow> (Some e, w2)
        | Inr macKey \<Rightarrow>
          let mac = Sha3 X [macKey, cipherText];
              scryptParamsJSON =
                [''n'' \<mapsto> IInt (scryptN ks),
                 ''r'' \<mapsto> IInt (scryptR ks),
                 ''p'' \<mapsto> IInt (scryptP ks),
                 ''dklen'' \<mapsto> IInt (scryptDKLen ks),
                 ''salt'' \<mapsto> IString (hex_EncodeToString salt)];
              cipherParamsJSON = \<lparr>IV = hex_EncodeToString iv\<rparr>;
              cryptoStruct =
                \<lparr>Cipher = ''aes-128-ctr'',
                 CipherText = hex_EncodeToString cipherText,
                 CipherParams = cipherParamsJSON,
                 KDF = ''scrypt'',
                 KDFParams = scryptParamsJSON,
                 MAC = hex_EncodeToString mac\<rparr>;
              encryptedKey =
                \<lparr>ekAddress = hex_EncodeToString (Key_Address key),
                 ekCrypto = cryptoStruct,
                 ekId = uuid_String X (Key_Id key),
                 ekVersion = version\<rparr>;
              keyJSON = json_Marshal encryptedKey
          in writeKeyFile (Key_Address key) (keysDirPath ks) keyJSON w2)))))"

definition DeleteKey ::
  "ext \<Rightarrow> keyStorePassphrase \<Rightarrow> address \<Rightarrow> string \<Rightarrow> world \<Rightarrow> error option \<times> world" where
  "DeleteKey X ks keyAddr auth w =
     (case snd (decryptKeyFromFile X w (keysDirPath ks) keyAddr auth) of
        Inl err \<Rightarrow> (Some err, w)
      | Inr r \<Rightarrow> deleteKey (keysDirPath ks) keyAddr w)"

section \<open>Properties named by the specification\<close>

text \<open>
  The MAC check in the specification's words: the stored \<open>mac\<close> is compared with the
  hash of \<open>derivedKey[16:32]\<close> concatenated with the ciphertext. \<open>None\<close> when no
  comparison takes place: the stored \<open>mac\<close> or ciphertext is no hexadecimal string, key
  derivation fails, or the slice expression is out of range.
\<close>

definition stored_mac_check :: "ext \<Rightarrow> encryptedKeyJSON \<Rightarrow> string \<Rightarrow> bool option" where
  "stored_mac_check X k auth =
     (case hex_DecodeString (MAC (ekCrypto k)) of
        Inl e \<Rightarrow> None
      | Inr mac \<Rightarrow>
     (case hex_DecodeString (CipherText (ekCrypto k)) of
        Inl e \<Rightarrow> None
      | Inr cipherText \<Rightarrow>
     (case snd (getKDFKey X (ekCrypto k) auth) of
        Inl e \<Rightarrow> None
      | Inr derivedKey \<Rightarrow>
          if length derivedKey < 32 then None
          else Some (keccak256 X (take 16 (drop 16 derivedKey) @ cipherText) = mac))))"

text \<open>
  What the theorems assume of the libraries: \<open>uuid.Parse\<close> reads back what
  \<open>UUID.String\<close> writes for a UUID of 16 bytes, and the digest has 32 bytes.
\<close>

definition uuid_lawful :: "ext \<Rightarrow> bool" where
  "uuid_lawful X = (\<forall>u. length u = 16 \<longrightarrow> uuid_Parse X (uuid_String X u) = u)"

definition digest_32 :: "ext \<Rightarrow> bool" where
  "digest_32 X = (\<forall>bs. length (keccak256 X bs) = 32)"

definition ks_in_range :: "keyStorePassphrase \<Rightarrow> bool" where
  "ks_in_range ks = (int_in_range (scryptN ks) \<and> int_in_range (scryptR ks) \<and>
     int_in_range (scryptP ks) \<and> int_in_range (scryptDKLen ks))"

text \<open>The member \<open>k\<close> of a JSON object, for reading a stored file.\<close>

definition json_field :: "json option \<Rightarrow> string \<Rightarrow> json option" where
  "json_field j k = (case j of Some (JObj m) \<Rightarrow> m k | _ \<Rightarrow> None)"

section \<open>A concrete environment\<close>

text \<open>
  Stand-ins for the library functions, used to run the model on concrete inputs: a key
  derivation that returns \<open>keyLen\<close> bytes computed from the bytes of its inputs and
  its cost parameter (and rejects a cost \<open>N \<le> 1\<close>, as \<open>scrypt.Key\<close> does), a digest of
  32 bytes, a key stream, and a UUID syntax of one character for each of 16 bytes.
\<close>

definition demo_kdf :: "bytes \<Rightarrow> bytes \<Rightarrow> int \<Rightarrow> int \<Rightarrow> bytes" where
  "demo_kdf pw salt c keyLen = replicate (nat keyLen) (sum_list pw + sum_list salt + of_int c)"

definition demo_digest :: "bytes \<Rightarrow> bytes" where
  "demo_digest bs = replicate 31 (of_nat (length bs)) @ [sum_list bs]"

definition demo_uuid_String :: "bytes \<Rightarrow> string" where
  "demo_uuid_String u = (if length u = 16 then map (\<lambda>b. char_of (unat b)) u else [])"

definition demo_uuid_Parse :: "string \<Rightarrow> bytes" where
  "demo_uuid_Parse s = (if length s = 16 then map (\<lambda>c. of_nat (of_char c)) s else [])"

definition demo_ext :: ext where
  "demo_ext =
     \<lparr>scrypt_Key = (\<lambda>pw salt n r p keyLen. if n \<le> 1 then None else Some (demo_kdf pw salt n keyLen)),
      pbkdf2_Key = demo_kdf,
      keccak256 = demo_digest,
      aes_ctr_keystream = (\<lambda>key iv i. of_nat (length key + length iv + i)),
      uuid_Parse = demo_uuid_Parse,
      uuid_String = demo_uuid_String,
      float64_to_int_oor = (\<lambda>f. - (2 ^ 63))\<rparr>"

text \<open>
  The data of the examples: a key and a state with no file and 48 bytes of entropy; an
  envelope that uses PBKDF2, as another tool could have written it, with an \<open>id\<close> that
  is no UUID, as a decoded value and as the file it is decoded from, and a state that
  holds this file; the same envelope with an IV of two bytes; and the \<open>crypto\<close> part of
  an envelope that names a KDF outside the supported two and has no \<open>dklen\<close>.
\<close>

definition example_key :: Key where
  "example_key =
     \<lparr>Key_Id = map of_nat [0..<16], Key_Address = replicate 20 170, Key_PrivateKey = replicate 32 17\<rparr>"

definition example_world :: world where
  "example_world = \<lparr>files = (\<lambda>loc. None), io_fails = (\<lambda>loc. False), entropy = map of_nat [0..<48]\<rparr>"

definition pbkdf2_crypto :: cryptoJSON where
  "pbkdf2_crypto =
     \<lparr>Cipher = ''aes-128-ctr'',
      CipherText = ''0a0b'',
      CipherParams = \<lparr>IV = ''000102030405060708090a0b0c0d0e0f''\<rparr>,
      KDF = ''pbkdf2'',
      KDFParams =
        [''c'' \<mapsto> IFloat (Float64 1000 0),
         ''dklen'' \<mapsto> IFloat (Float64 32 0),
         ''prf'' \<mapsto> IString ''hmac-sha256'',
         ''salt'' \<mapsto> IString ''ab''],
      MAC = ''12121212121212121212121212121212121212121212121212121212121212b5''\<rparr>"

definition pbkdf2_envelope :: encryptedKeyJSON where
  "pbkdf2_envelope =
     \<lparr>ekAddress = ''bbbbbbbbbbbbbbbbbbbbbbbbbbbbbbbbbbbbbbbb'', ekCrypto = pbkdf2_crypto,
      ekId = ''not-a-uuid'', ekVersion = 3\<rparr>"

definition pbkdf2_file :: json where
  "pbkdf2_file =
     JObj [''address'' \<mapsto> JStr ''bbbbbbbbbbbbbbbbbbbbbbbbbbbbbbbbbbbbbbbb'',
           ''crypto'' \<mapsto>
             JObj [''cipher'' \<mapsto> JStr ''aes-128-ctr'',
                   ''ciphertext'' \<mapsto> JStr ''0a0b'',
                   ''cipherparams'' \<mapsto> JObj [''iv'' \<mapsto> JStr ''000102030405060708090a0b0c0d0e0f''],
                   ''kdf'' \<mapsto> JStr ''pbkdf2'',
                   ''kdfparams'' \<mapsto>
                     JObj [''c'' \<mapsto> JNum (Float64 1000 0),
                           ''dklen'' \<mapsto> JNum (Float64 32 0),
                           ''prf'' \<mapsto> JStr ''hmac-sha256'',
                           ''salt'' \<mapsto> JStr ''ab''],
                   ''mac'' \<mapsto> JStr ''12121212121212121212121212121212121212121212121212121212121212b5''],
           ''id'' \<mapsto> JStr ''not-a-uuid'',
           ''version'' \<mapsto> JNum (Float64 3 0)]"

definition pbkdf2_world :: world where
  "pbkdf2_world =
     \<lparr>files = [(''keys'', replicate 20 187) \<mapsto> pbkdf2_file], io_fails = (\<lambda>loc. False), entropy = []\<rparr>"

definition short_iv_envelope :: encryptedKeyJSON where
  "short_iv_envelope =
     pbkdf2_envelope\<lparr>ekCrypto := pbkdf2_crypto\<lparr>CipherParams := \<lparr>IV = ''0001''\<rparr>\<rparr>\<rparr>"

definition bcrypt_crypto :: cryptoJSON where
  "bcrypt_crypto =
     \<lparr>Cipher = ''aes-128-ctr'',
      CipherText = ''0a0b'',
      CipherParams = \<lparr>IV = ''000102030405060708090a0b0c0d0e0f''\<rparr>,
      KDF = ''bcrypt'',
      KDFParams = [''cost'' \<mapsto> IFloat (Float64 12 0), ''salt'' \<mapsto> IString ''ab''],
      MAC = ''00''\<rparr>"

text \<open>
  An envelope that uses scrypt with parameters of neither profile, and a state that
  holds it as a file.
\<close>

definition scrypt_crypto :: cryptoJSON where
  "scrypt_crypto =
     \<lparr>Cipher = ''aes-128-ctr'',
      CipherText = ''0a0b'',
      CipherParams = \<lparr>IV = ''000102030405060708090a0b0c0d0e0f''\<rparr>,
      KDF = ''scrypt'',
      KDFParams =
        [''n'' \<mapsto> IFloat (Float64 1024 0),
         ''r'' \<mapsto> IFloat (Float64 4 0),
         ''p'' \<mapsto> IFloat (Float64 2 0),
         ''dklen'' \<mapsto> IFloat (Float64 32 0),
         ''salt'' \<mapsto> IString ''AB''],
      MAC = ''1212121212121212121212121212121212121212121212121212121212121235''\<rparr>"

definition scrypt_envelope :: encryptedKeyJSON where
  "scrypt_envelope =
     \<lparr>ekAddress = ''cccccccccccccccccccccccccccccccccccccccc'', ekCrypto = scrypt_crypto,
      ekId = ''not-a-uuid'', ekVersion = 3\<rparr>"

definition scrypt_world :: world where
  "scrypt_world =
     \<lparr>files = [(''keys'', replicate 20 204) \<mapsto> json_Marshal scrypt_envelope],
      io_fails = (\<lambda>loc. False), entropy = []\<rparr>"

text \<open>
  The PBKDF2 file with its \<open>version\<close> replaced by 2, with its \<open>cipher\<close> replaced by
  another, and with its IV replaced by one of two bytes, each in a state of its own.
\<close>

definition json_with :: "json \<Rightarrow> string \<Rightarrow> json \<Rightarrow> json" where
  "json_with j k v = (case j of JObj m \<Rightarrow> JObj (m(k \<mapsto> v)) | _ \<Rightarrow> j)"

definition version2_world :: world where
  "version2_world =
     pbkdf2_world\<lparr>files := [(''keys'', replicate 20 187) \<mapsto>
       json_with pbkdf2_file ''version'' (JNum (Float64 2 0))]\<rparr>"

definition cbc_world :: world where
  "cbc_world =
     pbkdf2_world\<lparr>files := [(''keys'', replicate 20 187) \<mapsto>
       json_with pbkdf2_file ''crypto''
         (json_with (marshal_cryptoJSON pbkdf2_crypto) ''cipher'' (JStr ''aes-256-cbc''))]\<rparr>"

definition short_iv_world :: world where
  "short_iv_world =
     pbkdf2_world\<lparr>files := [(''keys'', replicate 20 187) \<mapsto>
       json_with pbkdf2_file ''crypto''
         (json_with (marshal_cryptoJSON pbkdf2_crypto) ''cipherparams'' (JObj [''iv'' \<mapsto> JStr ''0001'']))]\<rparr>"

section \<open>Construction profiles\<close>

text \<open>
  Claim C9. \<open>NewKeyStorePassphrase\<close> yields the Standard scrypt profile
  (\<open>N = 2 ^ 18\<close>, \<open>p = 1\<close>) exactly when the safety argument equals \<open>KDFStandard\<close>;
  for every other integer, \<open>KDFLight\<close> or not, it yields the Light profile
  (\<open>N = 2 ^ 12\<close>, \<open>p = 6\<close>). In both, \<open>r = 8\<close> and \<open>dkLen = 32\<close>.
\<close>

theorem NewKeyStorePassphrase_profile:
  "(safety = KDFStandard \<longrightarrow>
      NewKeyStorePassphrase path safety =
        \<lparr>keysDirPath = path, scryptN = 2 ^ 18, scryptP = 1, scryptR = 8, scryptDKLen = 32\<rparr>) \<and>
   (safety \<noteq> KDFStandard \<longrightarrow>
      NewKeyStorePassphrase path safety =
        \<lparr>keysDirPath = path, scryptN = 2 ^ 12, scryptP = 6, scryptR = 8, scryptDKLen = 32\<rparr>)"
  by (simp add: NewKeyStorePassphrase_def stdScryptN_def stdScryptP_def lightScryptN_def
      lightScryptP_def scryptR_const_def scryptDKLen_const_def)

theorem NewKeyStorePassphrase_profile_witness:
  "NewKeyStorePassphrase ''keys'' KDFStandard =
     \<lparr>keysDirPath = ''keys'', scryptN = 2 ^ 18, scryptP = 1, scryptR = 8, scryptDKLen = 32\<rparr> \<and>
   NewKeyStorePassphrase ''keys'' KDFLight =
     \<lparr>keysDirPath = ''keys'', scryptN = 2 ^ 12, scryptP = 6, scryptR = 8, scryptDKLen = 32\<rparr> \<and>
   NewKeyStorePassphrase ''keys'' 7 =
     \<lparr>keysDirPath = ''keys'', scryptN = 2 ^ 12, scryptP = 6, scryptR = 8, scryptDKLen = 32\<rparr>"
  using NewKeyStorePassphrase_profile [of KDFStandard "''keys''"]
    NewKeyStorePassphrase_profile [of KDFLight "''keys''"]
    NewKeyStorePassphrase_profile [of 7 "''keys''"]
  by (simp add: KDFStandard_def KDFLight_def)

section \<open>Numeric parameters\<close>

lemma float64_trunc_exact:
  assumes "float64_integral (Float64 m e)"
  shows "if 0 \<le> e then float64_trunc (Float64 m e) = m * 2 ^ nat e
      else float64_trunc (Float64 m e) * 2 ^ nat (- e) = m"
proof (cases "0 \<le> e")
  case True
  then show ?thesis by simp
next
  case False
  with assms have d: "(2::int) ^ nat (- e) dvd m"
    by (simp add: mod_eq_0_iff_dvd)
  then have "m div 2 ^ nat (- e) * 2 ^ nat (- e) = m"
    by (rule dvd_div_mult_self)
  moreover from d have "(- m) div 2 ^ nat (- e) * 2 ^ nat (- e) = - m"
    by (simp add: dvd_div_mult_self)
  ultimately show ?thesis using False by simp
qed

text \<open>
  Claim C5, as the code has it. \<open>ensureInt\<close> returns an \<open>int\<close> as it is. A \<open>float64\<close>
  whose value is an integer in the range of \<open>int\<close> is converted to that integer, with
  no loss. Every other \<open>float64\<close> is converted too and none is rejected: a value with
  a fraction, in range, is truncated towards zero. A value that is neither an \<open>int\<close>
  nor a \<open>float64\<close> (a string, a boolean, nil for an absent key, an array or object)
  makes \<open>ensureInt\<close> panic.
\<close>

theorem ensureInt_conversion:
  "ensureInt X (IInt n) = Inr n \<and>
   (int_in_range n \<longrightarrow> ensureInt X (IFloat (Float64 n 0)) = Inr n) \<and>
   (float64_integral (Float64 m e) \<and> int_in_range (float64_trunc (Float64 m e)) \<longrightarrow>
      (\<exists>k. ensureInt X (IFloat (Float64 m e)) = Inr k \<and>
           (if 0 \<le> e then k = m * 2 ^ nat e else k * 2 ^ nat (- e) = m))) \<and>
   (int_in_range (float64_trunc f) \<longrightarrow> ensureInt X (IFloat f) = Inr (float64_trunc f)) \<and>
   (\<exists>k. ensureInt X (IFloat f) = Inr k) \<and>
   ((\<forall>k. x \<noteq> IInt k) \<and> (\<forall>g. x \<noteq> IFloat g) \<longrightarrow> ensureInt X x = Inl Panic)"
proof (intro conjI impI)
  show "ensureInt X (IInt n) = Inr n" by simp
next
  assume "int_in_range n"
  then show "ensureInt X (IFloat (Float64 n 0)) = Inr n"
    by (simp add: int_of_float64_def)
next
  assume a: "float64_integral (Float64 m e) \<and> int_in_range (float64_trunc (Float64 m e))"
  then have "ensureInt X (IFloat (Float64 m e)) = Inr (float64_trunc (Float64 m e))"
    by (simp add: int_of_float64_def)
  moreover have "if 0 \<le> e then float64_trunc (Float64 m e) = m * 2 ^ nat e
      else float64_trunc (Float64 m e) * 2 ^ nat (- e) = m"
    using a float64_trunc_exact by blast
  ultimately show "\<exists>k. ensureInt X (IFloat (Float64 m e)) = Inr k \<and>
           (if 0 \<le> e then k = m * 2 ^ nat e else k * 2 ^ nat (- e) = m)"
    by blast
next
  assume "int_in_range (float64_trunc f)"
  then show "ensureInt X (IFloat f) = Inr (float64_trunc f)"
    by (simp add: int_of_float64_def)
next
  show "\<exists>k. ensureInt X (IFloat f) = Inr k" by simp
next
  assume "(\<forall>k. x \<noteq> IInt k) \<and> (\<forall>g. x \<noteq> IFloat g)"
  then show "ensureInt X x = Inl Panic" by (cases x) simp_all
qed

theorem ensureInt_conversion_witness:
  "ensureInt demo_ext (IInt 4096) = Inr 4096 \<and>
   ensureInt demo_ext (IFloat (Float64 4096 0)) = Inr 4096 \<and>
   ensureInt demo_ext (IFloat (Float64 12 (- 2))) = Inr 3 \<and>
   ensureInt demo_ext (IFloat (Float64 (- 7) (- 1))) = Inr (- 3) \<and>
   ensureInt demo_ext (IString ''4096'') = Inl Panic"
  using ensureInt_conversion [of demo_ext 4096 12 "- 2" "Float64 (- 7) (- 1)" "IString ''4096''"]
  by (simp add: int_in_range_def)

text \<open>
  Claim C5 as stated fails at the parameter value 2.5: it is not integral, and
  \<open>ensureInt\<close> returns 2 for it where the claim has decoding fail.
\<close>

theorem ensureInt_truncates_counterexample:
  "\<not> float64_integral (Float64 5 (- 1)) \<and> ensureInt demo_ext (IFloat (Float64 5 (- 1))) = Inr 2"
  by (simp add: int_of_float64_def int_in_range_def)

section \<open>Hexadecimal round trip\<close>

lemma hextable_digits:
  "list_all (\<lambda>n. fromHexChar (hextable ! n) = Some (of_nat n)) [0..<16]"
  by code_simp

lemma fromHexChar_hextable:
  assumes "n < 16"
  shows "fromHexChar (hextable ! n) = Some (of_nat n)"
  using hextable_digits assms by (simp add: list_all_iff)

lemma byte_15_mask: "(15::byte) = mask 4"
  by (simp add: mask_eq_exp_minus_1)

lemma byte_nibbles: "push_bit 4 (drop_bit 4 v) OR (v AND 15) = (v::byte)"
  unfolding byte_15_mask by (rule bit_word_eqI) (auto simp: bit_simps)

lemma high_nibble_less: "unat (drop_bit 4 (v::byte)) < 16"
proof -
  have "unat v < 256" using unsigned_less [of v, where ?'a = nat] by simp
  then show ?thesis by (simp add: drop_bit_eq_div unat_div)
qed

lemma low_nibble_less: "unat ((v::byte) AND 15) < 16"
proof -
  have "unat (v AND mask 4) = take_bit 4 (unat v)"
    by (simp add: flip: take_bit_eq_mask) (simp add: unsigned_take_bit_eq)
  then show ?thesis unfolding byte_15_mask by (simp add: take_bit_eq_mod)
qed

lemma hex_DecodeString_hex_byte:
  "hex_DecodeString (hex_byte v @ rest) =
     (case hex_DecodeString rest of Inl e \<Rightarrow> Inl e | Inr bs \<Rightarrow> Inr (v # bs))"
  by (simp add: hex_byte_def fromHexChar_hextable high_nibble_less low_nibble_less byte_nibbles
      split: sum.splits)

lemma hex_roundtrip: "hex_DecodeString (hex_EncodeToString src) = Inr src"
  by (induction src) (simp_all add: hex_EncodeToString_def hex_DecodeString_hex_byte)

lemma getKDFKey_trace:
  "getKDFKey X cj auth = (t, Inr dk) \<Longrightarrow> t = [OpKDF]"
  by (auto simp: getKDFKey_def Let_def split: sum.splits if_splits option.splits)

lemma getKDFKey_trace_cases:
  "fst (getKDFKey X cj auth) = [] \<or> fst (getKDFKey X cj auth) = [OpKDF]"
  by (auto simp: getKDFKey_def Let_def split: sum.splits if_splits option.splits)

section \<open>The read path\<close>

lemma getKDFKey_trace_pair:
  "getKDFKey X cj auth = (t, r) \<Longrightarrow> t = [] \<or> t = [OpKDF]"
  using getKDFKey_trace_cases [of X cj auth] by simp

lemma decryptKey_cases:
  assumes eq: "decryptKey X k auth = (t, r)"
    and h: "OpCipher \<in> set t \<or> (\<exists>p. r = Inr p)"
  shows "stored_mac_check X k auth = Some True \<and> t = [OpKDF, OpMAC, OpCipher]"
proof -
  obtain t0 r0 where g: "getKDFKey X (ekCrypto k) auth = (t0, r0)"
    by (cases "getKDFKey X (ekCrypto k) auth") blast
  have t0: "t0 = [] \<or> t0 = [OpKDF]"
    using getKDFKey_trace_pair [OF g] .
  have r0: "\<And>dk. r0 = Inr dk \<Longrightarrow> t0 = [OpKDF]"
    using getKDFKey_trace g by blast
  show ?thesis
    using eq h t0 r0
    by (auto simp: decryptKey_def stored_mac_check_def slice_def Sha3_def Let_def g
        split: sum.splits if_splits)
qed

lemma decryptKey_mismatch:
  assumes "ekVersion k = 3" and "Cipher (ekCrypto k) = ''aes-128-ctr''"
    and "hex_DecodeString (IV (CipherParams (ekCrypto k))) = Inr iv"
    and "stored_mac_check X k auth = Some False"
  shows "decryptKey X k auth = ([OpKDF, OpMAC], Inl MACMismatch)"
proof -
  obtain t0 r0 where g: "getKDFKey X (ekCrypto k) auth = (t0, r0)"
    by (cases "getKDFKey X (ekCrypto k) auth") blast
  have r0: "\<And>dk. r0 = Inr dk \<Longrightarrow> t0 = [OpKDF]"
    using getKDFKey_trace g by blast
  show ?thesis
    using assms r0
    by (auto simp: decryptKey_def stored_mac_check_def slice_def Sha3_def Let_def version_def g
        split: sum.splits if_splits)
qed

lemma decryptKey_mac_computed:
  assumes "OpMAC \<in> set (fst (decryptKey X k auth))"
    and "stored_mac_check X k auth = Some False"
  shows "decryptKey X k auth = ([OpKDF, OpMAC], Inl MACMismatch)"
proof -
  obtain t0 r0 where g: "getKDFKey X (ekCrypto k) auth = (t0, r0)"
    by (cases "getKDFKey X (ekCrypto k) auth") blast
  have t0: "t0 = [] \<or> t0 = [OpKDF]"
    using getKDFKey_trace_pair [OF g] .
  have r0: "\<And>dk. r0 = Inr dk \<Longrightarrow> t0 = [OpKDF]"
    using getKDFKey_trace g by blast
  show ?thesis
    using assms t0 r0
    by (auto simp: decryptKey_def stored_mac_check_def slice_def Sha3_def Let_def g
        split: sum.splits if_splits)
qed

lemma getKey_envelope_map:
  "getKey_envelope w d a = Inr k \<Longrightarrow> \<exists>m. getKey_map w d a = Inr m"
  by (cases "files w (d, a)"; cases "the (files w (d, a))")
     (auto simp: getKey_envelope_def getKey_map_def getKeyFile_def split: option.splits)

lemma decryptKeyFromFile_envelope:
  "getKey_envelope w d a = Inr k \<Longrightarrow> decryptKeyFromFile X w d a auth = decryptKey X k auth"
  using getKey_envelope_map [of w d a k] by (auto simp: decryptKeyFromFile_def)

lemma decryptKey_success:
  assumes "ekVersion k = 3" and "Cipher (ekCrypto k) = ''aes-128-ctr''"
    and "hex_DecodeString (MAC (ekCrypto k)) = Inr mac"
    and "hex_DecodeString (IV (CipherParams (ekCrypto k))) = Inr iv"
    and "hex_DecodeString (CipherText (ekCrypto k)) = Inr ct"
    and "snd (getKDFKey X (ekCrypto k) auth) = Inr dk"
    and "32 \<le> length dk"
    and "keccak256 X (take 16 (drop 16 dk) @ ct) = mac"
  shows "decryptKey X k auth =
     ([OpKDF, OpMAC, OpCipher],
      case aesCTRXOR X (take 16 dk) ct iv of
        Inl e \<Rightarrow> Inl e
      | Inr plainText \<Rightarrow> Inr (plainText, uuid_Parse X (ekId k)))"
proof -
  obtain t0 where g: "getKDFKey X (ekCrypto k) auth = (t0, Inr dk)"
    using assms(6) by (cases "getKDFKey X (ekCrypto k) auth") simp
  have t0: "t0 = [OpKDF]"
    using getKDFKey_trace [OF g] .
  show ?thesis
    using assms(1-5,7,8)
    by (simp add: decryptKey_def version_def g t0 slice_def Sha3_def)
qed

lemma assert_string_Inl: "assert_string x = Inl e \<Longrightarrow> e = Panic"
  by (cases x) simp_all

lemma ensureInt_Inl: "ensureInt X x = Inl e \<Longrightarrow> e = Panic"
  by (cases x) simp_all

lemma hex_DecodeString_Inl: "hex_DecodeString s = Inl e \<Longrightarrow> e = HexDecodeError"
  by (induction s arbitrary: e rule: hex_DecodeString.induct)
     (auto split: option.splits sum.splits)

lemma getKDFKey_unknown_kdf:
  assumes "KDF cj \<noteq> ''scrypt''" and "KDF cj \<noteq> ''pbkdf2''"
  shows "getKDFKey X cj auth =
     ([], Inl (case assert_string (map_index (KDFParams cj) ''salt'') of
                 Inl e \<Rightarrow> Panic
               | Inr saltHex \<Rightarrow>
                   (case hex_DecodeString saltHex of
                      Inl e \<Rightarrow> HexDecodeError
                    | Inr salt \<Rightarrow>
                        (case ensureInt X (map_index (KDFParams cj) ''dklen'') of
                           Inl e \<Rightarrow> Panic
                         | Inr dkLen \<Rightarrow> UnsupportedKDF (KDF cj)))))"
  using assms
  by (auto simp: getKDFKey_def Let_def split: sum.splits
      dest: assert_string_Inl ensureInt_Inl hex_DecodeString_Inl)

lemma getKDFKey_bad_prf:
  assumes "KDF cj = ''pbkdf2''"
    and "map_index (KDFParams cj) ''prf'' \<noteq> IString ''hmac-sha256''"
  shows "getKDFKey X cj auth =
     ([], Inl (case assert_string (map_index (KDFParams cj) ''salt'') of
                 Inl e \<Rightarrow> Panic
               | Inr saltHex \<Rightarrow>
                   (case hex_DecodeString saltHex of
                      Inl e \<Rightarrow> HexDecodeError
                    | Inr salt \<Rightarrow>
                        (case ensureInt X (map_index (KDFParams cj) ''dklen'') of
                           Inl e \<Rightarrow> Panic
                         | Inr dkLen \<Rightarrow>
                             (case ensureInt X (map_index (KDFParams cj) ''c'') of
                                Inl e \<Rightarrow> Panic
                              | Inr c \<Rightarrow>
                                  (case assert_string (map_index (KDFParams cj) ''prf'') of
                                     Inl e \<Rightarrow> Panic
                                   | Inr prf \<Rightarrow> UnsupportedPRF prf))))))"
proof -
  have "assert_string (map_index (KDFParams cj) ''prf'') \<noteq> Inr ''hmac-sha256''"
    using assms(2) by (cases "map_index (KDFParams cj) ''prf''") simp_all
  then show ?thesis
    using assms(1)
    by (auto simp: getKDFKey_def Let_def split: sum.splits
        dest: assert_string_Inl ensureInt_Inl hex_DecodeString_Inl)
qed

lemma decryptKey_by_derived_key:
  assumes "ekVersion k = 3" and "Cipher (ekCrypto k) = ''aes-128-ctr''"
    and "hex_DecodeString (MAC (ekCrypto k)) = Inr mac"
    and "hex_DecodeString (IV (CipherParams (ekCrypto k))) = Inr iv"
    and "hex_DecodeString (CipherText (ekCrypto k)) = Inr cipherText"
  shows "decryptKey X k auth =
     (case getKDFKey X (ekCrypto k) auth of
        (t, Inl e) \<Rightarrow> (t, Inl e)
      | (t, Inr derivedKey) \<Rightarrow>
          if length derivedKey < 32 then (t, Inl Panic)
          else if keccak256 X (take 16 (drop 16 derivedKey) @ cipherText) \<noteq> mac
          then (t @ [OpMAC], Inl MACMismatch)
          else (t @ [OpMAC, OpCipher],
                case aesCTRXOR X (take 16 derivedKey) cipherText iv of
                  Inl e \<Rightarrow> Inl e
                | Inr plainText \<Rightarrow> Inr (plainText, uuid_Parse X (ekId k))))"
  using assms
  by (cases "getKDFKey X (ekCrypto k) auth")
     (auto simp: decryptKey_def version_def slice_def Sha3_def Let_def split: sum.splits)

section \<open>Facts of the examples\<close>

lemma pbkdf2_world_envelope:
  "getKey_envelope pbkdf2_world ''keys'' (replicate 20 187) = Inr pbkdf2_envelope"
  by (simp add: getKey_envelope_def getKeyFile_def pbkdf2_world_def pbkdf2_file_def
      pbkdf2_envelope_def pbkdf2_crypto_def int_in_range_def fun_eq_iff)

lemma version2_world_envelope:
  "getKey_envelope version2_world ''keys'' (replicate 20 187) = Inr (pbkdf2_envelope\<lparr>ekVersion := 2\<rparr>)"
  by (simp add: getKey_envelope_def getKeyFile_def version2_world_def pbkdf2_world_def
      pbkdf2_file_def json_with_def pbkdf2_envelope_def pbkdf2_crypto_def int_in_range_def fun_eq_iff)

lemma cbc_world_envelope:
  "getKey_envelope cbc_world ''keys'' (replicate 20 187) =
     Inr (pbkdf2_envelope\<lparr>ekCrypto := pbkdf2_crypto\<lparr>Cipher := ''aes-256-cbc''\<rparr>\<rparr>)"
  by (simp add: getKey_envelope_def getKeyFile_def cbc_world_def pbkdf2_world_def
      pbkdf2_file_def json_with_def marshal_cryptoJSON_def pbkdf2_envelope_def pbkdf2_crypto_def
      int_in_range_def fun_eq_iff)

lemma scrypt_world_envelope:
  "getKey_envelope scrypt_world ''keys'' (replicate 20 204) = Inr scrypt_envelope"
  by (simp add: getKey_envelope_def getKeyFile_def scrypt_world_def json_Marshal_def
      marshal_cryptoJSON_def scrypt_envelope_def scrypt_crypto_def int_in_range_def fun_eq_iff)

lemma demo_ext_uuid_lawful: "uuid_lawful demo_ext"
proof -
  have "map (\<lambda>c. (of_nat (of_char c) :: byte)) (map (\<lambda>b. char_of (unat b)) u) = u" for u :: bytes
  proof (induction u)
    case Nil
    then show ?case by simp
  next
    case (Cons b u)
    have "unat b < 256" using unsigned_less [of b, where ?'a = nat] by simp
    with Cons show ?case by simp
  qed
  then show ?thesis
    by (simp add: uuid_lawful_def demo_ext_def demo_uuid_Parse_def demo_uuid_String_def)
qed

lemma demo_ext_digest_32: "digest_32 demo_ext"
  by (simp add: digest_32_def demo_ext_def demo_digest_def)

text \<open>
  Claim C3. Retrieval, \<open>decryptKey\<close> and \<open>GetKey\<close> on a stored envelope, rejects an
  envelope whose version is not 3 with the version error, and one of version 3 whose
  cipher is not \<open>aes-128-ctr\<close> with the cipher error. In both cases, and for every
  envelope with another cipher whatever its version, this is before any cryptographic
  work: no key derivation, no MAC computation and no cipher operation is recorded.
\<close>

theorem decryptKey_version_cipher_gate:
  "(ekVersion k \<noteq> 3 \<longrightarrow>
      decryptKey X k auth = ([], Inl (VersionNotSupported (ekVersion k))) \<and>
      (getKey_envelope w (keysDirPath ks) a = Inr k \<longrightarrow>
         GetKey X ks w a auth = ([], Inl (VersionNotSupported (ekVersion k))))) \<and>
   (ekVersion k = 3 \<and> Cipher (ekCrypto k) \<noteq> ''aes-128-ctr'' \<longrightarrow>
      decryptKey X k auth = ([], Inl (CipherNotSupported (Cipher (ekCrypto k)))) \<and>
      (getKey_envelope w (keysDirPath ks) a = Inr k \<longrightarrow>
         GetKey X ks w a auth = ([], Inl (CipherNotSupported (Cipher (ekCrypto k)))))) \<and>
   (Cipher (ekCrypto k) \<noteq> ''aes-128-ctr'' \<longrightarrow>
      fst (decryptKey X k auth) = [] \<and>
      snd (decryptKey X k auth) \<in>
        {Inl (VersionNotSupported (ekVersion k)), Inl (CipherNotSupported (Cipher (ekCrypto k)))})"
  by (simp add: GetKey_def decryptKeyFromFile_envelope decryptKey_def version_def)

theorem decryptKey_version_cipher_gate_witness:
  "decryptKey demo_ext (pbkdf2_envelope\<lparr>ekVersion := 2\<rparr>) ''pw'' = ([], Inl (VersionNotSupported 2)) \<and>
   GetKey demo_ext (NewKeyStorePassphrase ''keys'' KDFLight) version2_world (replicate 20 187) ''pw'' =
     ([], Inl (VersionNotSupported 2)) \<and>
   decryptKey demo_ext (pbkdf2_envelope\<lparr>ekCrypto := pbkdf2_crypto\<lparr>Cipher := ''aes-256-cbc''\<rparr>\<rparr>) ''pw'' =
     ([], Inl (CipherNotSupported ''aes-256-cbc'')) \<and>
   GetKey demo_ext (NewKeyStorePassphrase ''keys'' KDFLight) cbc_world (replicate 20 187) ''pw'' =
     ([], Inl (CipherNotSupported ''aes-256-cbc''))"
proof -
  have dir: "keysDirPath (NewKeyStorePassphrase ''keys'' KDFLight) = ''keys''"
    by (simp add: NewKeyStorePassphrase_def)
  show ?thesis
    using decryptKey_version_cipher_gate
      [where k = "pbkdf2_envelope\<lparr>ekVersion := 2\<rparr>" and X = demo_ext and auth = "''pw''"
        and w = version2_world and ks = "NewKeyStorePassphrase ''keys'' KDFLight"
        and a = "replicate 20 187"]
      decryptKey_version_cipher_gate
      [where k = "pbkdf2_envelope\<lparr>ekCrypto := pbkdf2_crypto\<lparr>Cipher := ''aes-256-cbc''\<rparr>\<rparr>"
        and X = demo_ext and auth = "''pw''" and w = cbc_world
        and ks = "NewKeyStorePassphrase ''keys'' KDFLight" and a = "replicate 20 187"]
      version2_world_envelope cbc_world_envelope
    by (simp add: dir pbkdf2_envelope_def)
qed

text \<open>
  Claim C2. On retrieval the cipher runs, and plaintext is returned, only when the hash
  of \<open>derivedKey[16:32]\<close> and the ciphertext has been computed and found equal to the
  stored \<open>mac\<close>, the computation of the MAC coming before the cipher. When the two
  differ the cipher never runs and no plaintext is returned: whenever the MAC has been
  computed, the result is the MAC mismatch error, from \<open>decryptKey\<close> and from
  \<open>GetKey\<close>.
\<close>

theorem decryptKey_mac_before_cipher:
  "((OpCipher \<in> set (fst (decryptKey X k auth)) \<or> (\<exists>p. snd (decryptKey X k auth) = Inr p)) \<longrightarrow>
      stored_mac_check X k auth = Some True \<and> fst (decryptKey X k auth) = [OpKDF, OpMAC, OpCipher]) \<and>
   (stored_mac_check X k auth = Some False \<longrightarrow>
      OpCipher \<notin> set (fst (decryptKey X k auth)) \<and> (\<exists>e. snd (decryptKey X k auth) = Inl e) \<and>
      (OpMAC \<in> set (fst (decryptKey X k auth)) \<longrightarrow>
         decryptKey X k auth = ([OpKDF, OpMAC], Inl MACMismatch))) \<and>
   (ekVersion k = 3 \<and> Cipher (ekCrypto k) = ''aes-128-ctr'' \<and>
    hex_DecodeString (IV (CipherParams (ekCrypto k))) = Inr iv \<and>
    stored_mac_check X k auth = Some False \<longrightarrow>
      decryptKey X k auth = ([OpKDF, OpMAC], Inl MACMismatch) \<and>
      (getKey_envelope w (keysDirPath ks) a = Inr k \<longrightarrow>
         GetKey X ks w a auth = ([OpKDF, OpMAC], Inl MACMismatch)))"
proof (intro conjI impI)
  assume h: "OpCipher \<in> set (fst (decryptKey X k auth)) \<or> (\<exists>p. snd (decryptKey X k auth) = Inr p)"
  from decryptKey_cases [OF prod.collapse [symmetric] h]
  show "stored_mac_check X k auth = Some True" and "fst (decryptKey X k auth) = [OpKDF, OpMAC, OpCipher]"
    by simp_all
next
  assume f: "stored_mac_check X k auth = Some False"
  show "OpCipher \<notin> set (fst (decryptKey X k auth))"
    using decryptKey_cases [OF prod.collapse [symmetric], of X k auth] f by auto
  show "\<exists>e. snd (decryptKey X k auth) = Inl e"
    using decryptKey_cases [OF prod.collapse [symmetric], of X k auth] f
    by (cases "snd (decryptKey X k auth)") auto
  assume "OpMAC \<in> set (fst (decryptKey X k auth))"
  then show "decryptKey X k auth = ([OpKDF, OpMAC], Inl MACMismatch)"
    using f by (rule decryptKey_mac_computed)
next
  assume a: "ekVersion k = 3 \<and> Cipher (ekCrypto k) = ''aes-128-ctr'' \<and>
    hex_DecodeString (IV (CipherParams (ekCrypto k))) = Inr iv \<and>
    stored_mac_check X k auth = Some False"
  then show d: "decryptKey X k auth = ([OpKDF, OpMAC], Inl MACMismatch)"
    by (simp add: decryptKey_mismatch)
  assume "getKey_envelope w (keysDirPath ks) a = Inr k"
  then show "GetKey X ks w a auth = ([OpKDF, OpMAC], Inl MACMismatch)"
    by (simp add: GetKey_def decryptKeyFromFile_envelope d)
qed

theorem decryptKey_mac_before_cipher_witness:
  "stored_mac_check demo_ext pbkdf2_envelope ''pw'' = Some True \<and>
   fst (decryptKey demo_ext pbkdf2_envelope ''pw'') = [OpKDF, OpMAC, OpCipher] \<and>
   OpCipher \<notin> set (fst (decryptKey demo_ext pbkdf2_envelope ''wrong horse'')) \<and>
   decryptKey demo_ext pbkdf2_envelope ''wrong horse'' = ([OpKDF, OpMAC], Inl MACMismatch) \<and>
   GetKey demo_ext (NewKeyStorePassphrase ''keys'' KDFLight) pbkdf2_world (replicate 20 187) ''wrong horse'' =
     ([OpKDF, OpMAC], Inl MACMismatch)"
proof -
  have ok: "snd (decryptKey demo_ext pbkdf2_envelope ''pw'') = Inr ([42, 42], [])"
    by code_simp
  have bad: "ekVersion pbkdf2_envelope = 3 \<and> Cipher (ekCrypto pbkdf2_envelope) = ''aes-128-ctr'' \<and>
      hex_DecodeString (IV (CipherParams (ekCrypto pbkdf2_envelope))) = Inr (map of_nat [0..<16]) \<and>
      stored_mac_check demo_ext pbkdf2_envelope ''wrong horse'' = Some False"
    by code_simp
  have env: "getKey_envelope pbkdf2_world (keysDirPath (NewKeyStorePassphrase ''keys'' KDFLight))
      (replicate 20 187) = Inr pbkdf2_envelope"
    using pbkdf2_world_envelope by (simp add: NewKeyStorePassphrase_def)
  from decryptKey_mac_before_cipher
    [of demo_ext pbkdf2_envelope "''pw''" "map of_nat [0..<16]" pbkdf2_world
      "NewKeyStorePassphrase ''keys'' KDFLight" "replicate 20 187"] ok
  have 1: "stored_mac_check demo_ext pbkdf2_envelope ''pw'' = Some True \<and>
      fst (decryptKey demo_ext pbkdf2_envelope ''pw'') = [OpKDF, OpMAC, OpCipher]"
    by blast
  from decryptKey_mac_before_cipher
    [of demo_ext pbkdf2_envelope "''wrong horse''" "map of_nat [0..<16]" pbkdf2_world
      "NewKeyStorePassphrase ''keys'' KDFLight" "replicate 20 187"] bad env
  have 2: "OpCipher \<notin> set (fst (decryptKey demo_ext pbkdf2_envelope ''wrong horse'')) \<and>
      decryptKey demo_ext pbkdf2_envelope ''wrong horse'' = ([OpKDF, OpMAC], Inl MACMismatch) \<and>
      GetKey demo_ext (NewKeyStorePassphrase ''keys'' KDFLight) pbkdf2_world (replicate 20 187)
        ''wrong horse'' = ([OpKDF, OpMAC], Inl MACMismatch)"
    by blast
  from 1 2 show ?thesis by blast
qed

text \<open>
  Claim C4, as the code has it. For every envelope whose \<open>kdf\<close> is neither \<open>scrypt\<close>
  nor \<open>pbkdf2\<close>, key derivation fails and derives nothing; the failure is the
  unsupported-KDF error whenever \<open>kdfparams\<close> holds a \<open>salt\<close> that is a hexadecimal
  string and a numeric \<open>dklen\<close>, which the code reads first. For every \<open>pbkdf2\<close>
  envelope whose \<open>prf\<close> is not \<open>hmac-sha256\<close>, key derivation fails and derives
  nothing; the failure is the unsupported-PRF error whenever \<open>salt\<close> and \<open>dklen\<close> are
  as above, \<open>c\<close> is numeric and \<open>prf\<close> is a string. Otherwise the failure is the one
  met first, in the order in which the code reads the parameters: the panic of a
  failed type assertion (\<open>salt\<close> or \<open>prf\<close> not a string, \<open>dklen\<close> or \<open>c\<close> not a
  number) or the hexadecimal decoding error of the salt, and no other.
\<close>

theorem getKDFKey_unsupported:
  "(KDF cj \<noteq> ''scrypt'' \<and> KDF cj \<noteq> ''pbkdf2'' \<longrightarrow>
      (\<exists>e. getKDFKey X cj auth = ([], Inl e)) \<and>
      getKDFKey X cj auth \<in>
        {([], Inl Panic), ([], Inl HexDecodeError), ([], Inl (UnsupportedKDF (KDF cj)))} \<and>
      getKDFKey X cj auth =
        ([], Inl (case assert_string (map_index (KDFParams cj) ''salt'') of
                    Inl e \<Rightarrow> Panic
                  | Inr saltHex \<Rightarrow>
                      (case hex_DecodeString saltHex of
                         Inl e \<Rightarrow> HexDecodeError
                       | Inr salt \<Rightarrow>
                           (case ensureInt X (map_index (KDFParams cj) ''dklen'') of
                              Inl e \<Rightarrow> Panic
                            | Inr dkLen \<Rightarrow> UnsupportedKDF (KDF cj))))) \<and>
      (assert_string (map_index (KDFParams cj) ''salt'') = Inr saltHex \<and>
       hex_DecodeString saltHex = Inr salt \<and>
       ensureInt X (map_index (KDFParams cj) ''dklen'') = Inr dkLen \<longrightarrow>
         getKDFKey X cj auth = ([], Inl (UnsupportedKDF (KDF cj))))) \<and>
   (KDF cj = ''pbkdf2'' \<and> map_index (KDFParams cj) ''prf'' \<noteq> IString ''hmac-sha256'' \<longrightarrow>
      (\<exists>e. getKDFKey X cj auth = ([], Inl e)) \<and>
      (getKDFKey X cj auth \<in> {([], Inl Panic), ([], Inl HexDecodeError)} \<or>
       (\<exists>prfName. map_index (KDFParams cj) ''prf'' = IString prfName \<and>
          getKDFKey X cj auth = ([], Inl (UnsupportedPRF prfName)))) \<and>
      getKDFKey X cj auth =
        ([], Inl (case assert_string (map_index (KDFParams cj) ''salt'') of
                    Inl e \<Rightarrow> Panic
                  | Inr saltHex \<Rightarrow>
                      (case hex_DecodeString saltHex of
                         Inl e \<Rightarrow> HexDecodeError
                       | Inr salt \<Rightarrow>
                           (case ensureInt X (map_index (KDFParams cj) ''dklen'') of
                              Inl e \<Rightarrow> Panic
                            | Inr dkLen \<Rightarrow>
                                (case ensureInt X (map_index (KDFParams cj) ''c'') of
                                   Inl e \<Rightarrow> Panic
                                 | Inr c \<Rightarrow>
                                     (case assert_string (map_index (KDFParams cj) ''prf'') of
                                        Inl e \<Rightarrow> Panic
                                      | Inr prf \<Rightarrow> UnsupportedPRF prf)))))) \<and>
      (assert_string (map_index (KDFParams cj) ''salt'') = Inr saltHex \<and>
       hex_DecodeString saltHex = Inr salt \<and>
       ensureInt X (map_index (KDFParams cj) ''dklen'') = Inr dkLen \<and>
       ensureInt X (map_index (KDFParams cj) ''c'') = Inr c \<and>
       map_index (KDFParams cj) ''prf'' = IString prfName \<longrightarrow>
         getKDFKey X cj auth = ([], Inl (UnsupportedPRF prfName))))"
proof (intro conjI impI)
  assume a: "KDF cj \<noteq> ''scrypt'' \<and> KDF cj \<noteq> ''pbkdf2''"
  then have u: "getKDFKey X cj auth =
     ([], Inl (case assert_string (map_index (KDFParams cj) ''salt'') of
                 Inl e \<Rightarrow> Panic
               | Inr saltHex \<Rightarrow>
                   (case hex_DecodeString saltHex of
                      Inl e \<Rightarrow> HexDecodeError
                    | Inr salt \<Rightarrow>
                        (case ensureInt X (map_index (KDFParams cj) ''dklen'') of
                           Inl e \<Rightarrow> Panic
                         | Inr dkLen \<Rightarrow> UnsupportedKDF (KDF cj)))))"
    by (simp add: getKDFKey_unknown_kdf)
  show "getKDFKey X cj auth =
     ([], Inl (case assert_string (map_index (KDFParams cj) ''salt'') of
                 Inl e \<Rightarrow> Panic
               | Inr saltHex \<Rightarrow>
                   (case hex_DecodeString saltHex of
                      Inl e \<Rightarrow> HexDecodeError
                    | Inr salt \<Rightarrow>
                        (case ensureInt X (map_index (KDFParams cj) ''dklen'') of
                           Inl e \<Rightarrow> Panic
                         | Inr dkLen \<Rightarrow> UnsupportedKDF (KDF cj)))))"
    by (rule u)
  show "\<exists>e. getKDFKey X cj auth = ([], Inl e)"
    using u by blast
  show "getKDFKey X cj auth \<in>
        {([], Inl Panic), ([], Inl HexDecodeError), ([], Inl (UnsupportedKDF (KDF cj)))}"
    unfolding u by (simp split: sum.splits)
  assume "assert_string (map_index (KDFParams cj) ''salt'') = Inr saltHex \<and>
       hex_DecodeString saltHex = Inr salt \<and>
       ensureInt X (map_index (KDFParams cj) ''dklen'') = Inr dkLen"
  then show "getKDFKey X cj auth = ([], Inl (UnsupportedKDF (KDF cj)))"
    unfolding u by simp
next
  assume a: "KDF cj = ''pbkdf2'' \<and> map_index (KDFParams cj) ''prf'' \<noteq> IString ''hmac-sha256''"
  then have u: "getKDFKey X cj auth =
     ([], Inl (case assert_string (map_index (KDFParams cj) ''salt'') of
                 Inl e \<Rightarrow> Panic
               | Inr saltHex \<Rightarrow>
                   (case hex_DecodeString saltHex of
                      Inl e \<Rightarrow> HexDecodeError
                    | Inr salt \<Rightarrow>
                        (case ensureInt X (map_index (KDFParams cj) ''dklen'') of
                           Inl e \<Rightarrow> Panic
                         | Inr dkLen \<Rightarrow>
                             (case ensureInt X (map_index (KDFParams cj) ''c'') of
                                Inl e \<Rightarrow> Panic
                              | Inr c \<Rightarrow>
                                  (case assert_string (map_index (KDFParams cj) ''prf'') of
                                     Inl e \<Rightarrow> Panic
                                   | Inr prf \<Rightarrow> UnsupportedPRF prf))))))"
    by (simp add: getKDFKey_bad_prf)
  show "getKDFKey X cj auth =
     ([], Inl (case assert_string (map_index (KDFParams cj) ''salt'') of
                 Inl e \<Rightarrow> Panic
               | Inr saltHex \<Rightarrow>
                   (case hex_DecodeString saltHex of
                      Inl e \<Rightarrow> HexDecodeError
                    | Inr salt \<Rightarrow>
                        (case ensureInt X (map_index (KDFParams cj) ''dklen'') of
                           Inl e \<Rightarrow> Panic
                         | Inr dkLen \<Rightarrow>
                             (case ensureInt X (map_index (KDFParams cj) ''c'') of
                                Inl e \<Rightarrow> Panic
                              | Inr c \<Rightarrow>
                                  (case assert_string (map_index (KDFParams cj) ''prf'') of
                                     Inl e \<Rightarrow> Panic
                                   | Inr prf \<Rightarrow> UnsupportedPRF prf))))))"
    by (rule u)
  show "\<exists>e. getKDFKey X cj auth = ([], Inl e)"
    using u by blast
  show "getKDFKey X cj auth \<in> {([], Inl Panic), ([], Inl HexDecodeError)} \<or>
       (\<exists>prfName. map_index (KDFParams cj) ''prf'' = IString prfName \<and>
          getKDFKey X cj auth = ([], Inl (UnsupportedPRF prfName)))"
    unfolding u
    by (cases "map_index (KDFParams cj) ''prf''") (simp_all split: sum.splits)
  assume "assert_string (map_index (KDFParams cj) ''salt'') = Inr saltHex \<and>
       hex_DecodeString saltHex = Inr salt \<and>
       ensureInt X (map_index (KDFParams cj) ''dklen'') = Inr dkLen \<and>
       ensureInt X (map_index (KDFParams cj) ''c'') = Inr c \<and>
       map_index (KDFParams cj) ''prf'' = IString prfName"
  then show "getKDFKey X cj auth = ([], Inl (UnsupportedPRF prfName))"
    unfolding u by simp
qed

theorem getKDFKey_unsupported_witness:
  "getKDFKey demo_ext (bcrypt_crypto\<lparr>KDFParams := KDFParams pbkdf2_crypto\<rparr>) ''pw'' =
     ([], Inl (UnsupportedKDF ''bcrypt'')) \<and>
   getKDFKey demo_ext (bcrypt_crypto\<lparr>KDFParams := [''salt'' \<mapsto> IString ''zz'']\<rparr>) ''pw'' =
     ([], Inl HexDecodeError) \<and>
   getKDFKey demo_ext (bcrypt_crypto\<lparr>KDFParams := (\<lambda>k. None)\<rparr>) ''pw'' = ([], Inl Panic) \<and>
   getKDFKey demo_ext
     (pbkdf2_crypto\<lparr>KDFParams := (KDFParams pbkdf2_crypto)(''prf'' \<mapsto> IString ''hmac-sha1'')\<rparr>) ''pw'' =
     ([], Inl (UnsupportedPRF ''hmac-sha1'')) \<and>
   getKDFKey demo_ext
     (pbkdf2_crypto\<lparr>KDFParams := (KDFParams pbkdf2_crypto)(''prf'' := None)\<rparr>) ''pw'' =
     ([], Inl Panic)"
proof -
  let ?b1 = "bcrypt_crypto\<lparr>KDFParams := KDFParams pbkdf2_crypto\<rparr>"
  let ?b2 = "bcrypt_crypto\<lparr>KDFParams := [''salt'' \<mapsto> IString ''zz'']\<rparr>"
  let ?b3 = "bcrypt_crypto\<lparr>KDFParams := (\<lambda>k. None)\<rparr>"
  let ?p1 = "pbkdf2_crypto\<lparr>KDFParams := (KDFParams pbkdf2_crypto)(''prf'' \<mapsto> IString ''hmac-sha1'')\<rparr>"
  let ?p2 = "pbkdf2_crypto\<lparr>KDFParams := (KDFParams pbkdf2_crypto)(''prf'' := None)\<rparr>"
  have kb: "KDF ?b1 \<noteq> ''scrypt'' \<and> KDF ?b1 \<noteq> ''pbkdf2''"
      "KDF ?b2 \<noteq> ''scrypt'' \<and> KDF ?b2 \<noteq> ''pbkdf2''"
      "KDF ?b3 \<noteq> ''scrypt'' \<and> KDF ?b3 \<noteq> ''pbkdf2''"
    by (simp_all add: bcrypt_crypto_def)
  have b: "assert_string (map_index (KDFParams ?b1) ''salt'') = Inr ''ab'' \<and>
      hex_DecodeString ''ab'' = Inr [171] \<and>
      ensureInt demo_ext (map_index (KDFParams ?b1) ''dklen'') = Inr 32"
    by code_simp
  have kp: "KDF ?p1 = ''pbkdf2'' \<and> map_index (KDFParams ?p1) ''prf'' \<noteq> IString ''hmac-sha256''"
      "KDF ?p2 = ''pbkdf2'' \<and> map_index (KDFParams ?p2) ''prf'' \<noteq> IString ''hmac-sha256''"
    by (simp_all add: pbkdf2_crypto_def map_index_def)
  have d: "assert_string (map_index (KDFParams ?p1) ''salt'') = Inr ''ab'' \<and>
      hex_DecodeString ''ab'' = Inr [171] \<and>
      ensureInt demo_ext (map_index (KDFParams ?p1) ''dklen'') = Inr 32 \<and>
      ensureInt demo_ext (map_index (KDFParams ?p1) ''c'') = Inr 1000 \<and>
      map_index (KDFParams ?p1) ''prf'' = IString ''hmac-sha1''"
    by (simp add: pbkdf2_crypto_def map_index_def fromHexChar_def int_of_float64_def int_in_range_def)
  have first2: "(case assert_string (map_index (KDFParams ?b2) ''salt'') of
                 Inl e \<Rightarrow> Panic
               | Inr saltHex \<Rightarrow>
                   (case hex_DecodeString saltHex of
                      Inl e \<Rightarrow> HexDecodeError
                    | Inr salt \<Rightarrow>
                        (case ensureInt demo_ext (map_index (KDFParams ?b2) ''dklen'') of
                           Inl e \<Rightarrow> Panic
                         | Inr dkLen \<Rightarrow> UnsupportedKDF (KDF ?b2)))) = HexDecodeError"
    by code_simp
  have first3: "(case assert_string (map_index (KDFParams ?b3) ''salt'') of
                 Inl e \<Rightarrow> Panic
               | Inr saltHex \<Rightarrow>
                   (case hex_DecodeString saltHex of
                      Inl e \<Rightarrow> HexDecodeError
                    | Inr salt \<Rightarrow>
                        (case ensureInt demo_ext (map_index (KDFParams ?b3) ''dklen'') of
                           Inl e \<Rightarrow> Panic
                         | Inr dkLen \<Rightarrow> UnsupportedKDF (KDF ?b3)))) = Panic"
    by code_simp
  have firstp: "(case assert_string (map_index (KDFParams ?p2) ''salt'') of
                 Inl e \<Rightarrow> Panic
               | Inr saltHex \<Rightarrow>
                   (case hex_DecodeString saltHex of
                      Inl e \<Rightarrow> HexDecodeError
                    | Inr salt \<Rightarrow>
                        (case ensureInt demo_ext (map_index (KDFParams ?p2) ''dklen'') of
                           Inl e \<Rightarrow> Panic
                         | Inr dkLen \<Rightarrow>
                             (case ensureInt demo_ext (map_index (KDFParams ?p2) ''c'') of
                                Inl e \<Rightarrow> Panic
                              | Inr c \<Rightarrow>
                                  (case assert_string (map_index (KDFParams ?p2) ''prf'') of
                                     Inl e \<Rightarrow> Panic
                                   | Inr prf \<Rightarrow> UnsupportedPRF prf))))) = Panic"
    by code_simp
  from getKDFKey_unsupported [where cj = ?b1 and X = demo_ext and auth = "''pw''" and saltHex = "''ab''"
      and salt = "[171]" and dkLen = 32] kb(1) b
  have 1: "getKDFKey demo_ext ?b1 ''pw'' = ([], Inl (UnsupportedKDF (KDF ?b1)))"
    by blast
  from getKDFKey_unsupported [where cj = ?b2 and X = demo_ext and auth = "''pw''"] kb(2)
  have "getKDFKey demo_ext ?b2 ''pw'' =
     ([], Inl (case assert_string (map_index (KDFParams ?b2) ''salt'') of
                 Inl e \<Rightarrow> Panic
               | Inr saltHex \<Rightarrow>
                   (case hex_DecodeString saltHex of
                      Inl e \<Rightarrow> HexDecodeError
                    | Inr salt \<Rightarrow>
                        (case ensureInt demo_ext (map_index (KDFParams ?b2) ''dklen'') of
                           Inl e \<Rightarrow> Panic
                         | Inr dkLen \<Rightarrow> UnsupportedKDF (KDF ?b2)))))"
    by blast
  then have 2: "getKDFKey demo_ext ?b2 ''pw'' = ([], Inl HexDecodeError)"
    by (simp only: first2)
  from getKDFKey_unsupported [where cj = ?b3 and X = demo_ext and auth = "''pw''"] kb(3)
  have "getKDFKey demo_ext ?b3 ''pw'' =
     ([], Inl (case assert_string (map_index (KDFParams ?b3) ''salt'') of
                 Inl e \<Rightarrow> Panic
               | Inr saltHex \<Rightarrow>
                   (case hex_DecodeString saltHex of
                      Inl e \<Rightarrow> HexDecodeError
                    | Inr salt \<Rightarrow>
                        (case ensureInt demo_ext (map_index (KDFParams ?b3) ''dklen'') of
                           Inl e \<Rightarrow> Panic
                         | Inr dkLen \<Rightarrow> UnsupportedKDF (KDF ?b3)))))"
    by blast
  then have 3: "getKDFKey demo_ext ?b3 ''pw'' = ([], Inl Panic)"
    by (simp only: first3)
  from getKDFKey_unsupported [where cj = ?p1 and X = demo_ext and auth = "''pw''" and saltHex = "''ab''"
      and salt = "[171]" and dkLen = 32 and c = 1000 and prfName = "''hmac-sha1''"] kp(1) d
  have 4: "getKDFKey demo_ext ?p1 ''pw'' = ([], Inl (UnsupportedPRF ''hmac-sha1''))"
    by blast
  from getKDFKey_unsupported [where cj = ?p2 and X = demo_ext and auth = "''pw''"] kp(2)
  have "getKDFKey demo_ext ?p2 ''pw'' =
     ([], Inl (case assert_string (map_index (KDFParams ?p2) ''salt'') of
                 Inl e \<Rightarrow> Panic
               | Inr saltHex \<Rightarrow>
                   (case hex_DecodeString saltHex of
                      Inl e \<Rightarrow> HexDecodeError
                    | Inr salt \<Rightarrow>
                        (case ensureInt demo_ext (map_index (KDFParams ?p2) ''dklen'') of
                           Inl e \<Rightarrow> Panic
                         | Inr dkLen \<Rightarrow>
                             (case ensureInt demo_ext (map_index (KDFParams ?p2) ''c'') of
                                Inl e \<Rightarrow> Panic
                              | Inr c \<Rightarrow>
                                  (case assert_string (map_index (KDFParams ?p2) ''prf'') of
                                     Inl e \<Rightarrow> Panic
                                   | Inr prf \<Rightarrow> UnsupportedPRF prf))))))"
    by blast
  then have 5: "getKDFKey demo_ext ?p2 ''pw'' = ([], Inl Panic)"
    by (simp only: firstp)
  from 1 have u1: "getKDFKey demo_ext ?b1 ''pw'' = ([], Inl (UnsupportedKDF ''bcrypt''))"
    by (simp add: bcrypt_crypto_def)
  from u1 2 3 4 5 show ?thesis by blast
qed

text \<open>
  Claim C4 as stated fails at an envelope that names the KDF \<open>bcrypt\<close> and has no
  \<open>dklen\<close>: the conversion of the absent parameter panics before the name of the KDF
  is looked at, so the failure is not the unsupported-KDF error.
\<close>

theorem getKDFKey_unsupported_counterexample:
  "KDF bcrypt_crypto \<noteq> ''scrypt'' \<and> KDF bcrypt_crypto \<noteq> ''pbkdf2'' \<and>
   getKDFKey demo_ext bcrypt_crypto ''pw'' = ([], Inl Panic) \<and>
   getKDFKey demo_ext bcrypt_crypto ''pw'' \<noteq> ([], Inl (UnsupportedKDF ''bcrypt''))"
  by code_simp

text \<open>
  Claim C8. \<open>GetKey\<close> depends on the store only through its directory: two stores over
  the same directory, whatever their scrypt profiles, return the same for every file,
  namely what \<open>decryptKey\<close> makes of the stored envelope. Past the version and cipher
  checks, the result of \<open>GetKey\<close> is fixed by the key that \<open>getKDFKey\<close> derives from
  the \<open>crypto\<close> part of the file: its bytes 16 to 32 are the MAC key and its first 16 the
  cipher key, and a failure to derive is the failure of \<open>GetKey\<close>. That key is derived
  by the KDF the file names, with the salt and the parameters the file records:
  \<open>pbkdf2.Key\<close> with the file's \<open>c\<close> and \<open>dklen\<close>, or \<open>scrypt.Key\<close> with the file's
  \<open>n\<close>, \<open>r\<close>, \<open>p\<close> and \<open>dklen\<close>. So a stored PBKDF2 envelope, and a stored scrypt
  envelope with any parameters, whose MAC matches under the key so derived and whose
  IV has 16 bytes, is decrypted by every store over its directory.
\<close>

theorem GetKey_uses_file_kdf:
  "(keysDirPath ks = keysDirPath ks' \<longrightarrow> GetKey X ks w a auth = GetKey X ks' w a auth) \<and>
   (getKey_envelope w (keysDirPath ks) a = Inr k \<longrightarrow>
      GetKey X ks w a auth =
        (case decryptKey X k auth of
           (t, Inl err) \<Rightarrow> (t, Inl err)
         | (t, Inr (keyBytes, keyId)) \<Rightarrow>
             (t, Inr \<lparr>Key_Id = keyId, Key_Address = a, Key_PrivateKey = ToECDSA keyBytes\<rparr>))) \<and>
   (getKey_envelope w (keysDirPath ks) a = Inr k \<and>
    ekVersion k = 3 \<and> Cipher (ekCrypto k) = ''aes-128-ctr'' \<and>
    hex_DecodeString (MAC (ekCrypto k)) = Inr mac \<and>
    hex_DecodeString (IV (CipherParams (ekCrypto k))) = Inr iv \<and>
    hex_DecodeString (CipherText (ekCrypto k)) = Inr cipherText \<longrightarrow>
      GetKey X ks w a auth =
        (case getKDFKey X (ekCrypto k) auth of
           (t, Inl e) \<Rightarrow> (t, Inl e)
         | (t, Inr derivedKey) \<Rightarrow>
             if length derivedKey < 32 then (t, Inl Panic)
             else if keccak256 X (take 16 (drop 16 derivedKey) @ cipherText) \<noteq> mac
             then (t @ [OpMAC], Inl MACMismatch)
             else (t @ [OpMAC, OpCipher],
                   case aesCTRXOR X (take 16 derivedKey) cipherText iv of
                     Inl e \<Rightarrow> Inl e
                   | Inr plainText \<Rightarrow>
                       Inr \<lparr>Key_Id = uuid_Parse X (ekId k), Key_Address = a,
                            Key_PrivateKey = plainText\<rparr>))) \<and>
   (KDF cj = ''pbkdf2'' \<and>
    assert_string (map_index (KDFParams cj) ''salt'') = Inr saltHex \<and>
    hex_DecodeString saltHex = Inr salt \<and>
    ensureInt X (map_index (KDFParams cj) ''dklen'') = Inr dkLen \<and>
    ensureInt X (map_index (KDFParams cj) ''c'') = Inr c \<and>
    assert_string (map_index (KDFParams cj) ''prf'') = Inr ''hmac-sha256'' \<longrightarrow>
      getKDFKey X cj auth = ([OpKDF], Inr (pbkdf2_Key X (bytes_of_string auth) salt c dkLen))) \<and>
   (KDF cj = ''scrypt'' \<and>
    assert_string (map_index (KDFParams cj) ''salt'') = Inr saltHex \<and>
    hex_DecodeString saltHex = Inr salt \<and>
    ensureInt X (map_index (KDFParams cj) ''dklen'') = Inr dkLen \<and>
    ensureInt X (map_index (KDFParams cj) ''n'') = Inr n \<and>
    ensureInt X (map_index (KDFParams cj) ''r'') = Inr r \<and>
    ensureInt X (map_index (KDFParams cj) ''p'') = Inr p \<longrightarrow>
      getKDFKey X cj auth =
        ([OpKDF],
         case scrypt_Key X (bytes_of_string auth) salt n r p dkLen of
           None \<Rightarrow> Inl ScryptError
         | Some key \<Rightarrow> Inr key)) \<and>
   (getKey_envelope w (keysDirPath ks) a = Inr k \<and>
    ekVersion k = 3 \<and> Cipher (ekCrypto k) = ''aes-128-ctr'' \<and>
    hex_DecodeString (MAC (ekCrypto k)) = Inr mac \<and>
    hex_DecodeString (IV (CipherParams (ekCrypto k))) = Inr iv \<and> length iv = 16 \<and>
    hex_DecodeString (CipherText (ekCrypto k)) = Inr cipherText \<and>
    KDF (ekCrypto k) = ''pbkdf2'' \<and>
    assert_string (map_index (KDFParams (ekCrypto k)) ''salt'') = Inr saltHex \<and>
    hex_DecodeString saltHex = Inr salt \<and>
    ensureInt X (map_index (KDFParams (ekCrypto k)) ''dklen'') = Inr dkLen \<and>
    ensureInt X (map_index (KDFParams (ekCrypto k)) ''c'') = Inr c \<and>
    assert_string (map_index (KDFParams (ekCrypto k)) ''prf'') = Inr ''hmac-sha256'' \<and>
    pbkdf2_Key X (bytes_of_string auth) salt c dkLen = dk \<and>
    32 \<le> length dk \<and>
    keccak256 X (take 16 (drop 16 dk) @ cipherText) = mac \<longrightarrow>
      (\<exists>plainText.
         aesCTRXOR X (take 16 dk) cipherText iv = Inr plainText \<and>
         GetKey X ks w a auth =
           ([OpKDF, OpMAC, OpCipher],
            Inr \<lparr>Key_Id = uuid_Parse X (ekId k), Key_Address = a, Key_PrivateKey = plainText\<rparr>))) \<and>
   (getKey_envelope w (keysDirPath ks) a = Inr k \<and>
    ekVersion k = 3 \<and> Cipher (ekCrypto k) = ''aes-128-ctr'' \<and>
    hex_DecodeString (MAC (ekCrypto k)) = Inr mac \<and>
    hex_DecodeString (IV (CipherParams (ekCrypto k))) = Inr iv \<and> length iv = 16 \<and>
    hex_DecodeString (CipherText (ekCrypto k)) = Inr cipherText \<and>
    KDF (ekCrypto k) = ''scrypt'' \<and>
    assert_string (map_index (KDFParams (ekCrypto k)) ''salt'') = Inr saltHex \<and>
    hex_DecodeString saltHex = Inr salt \<and>
    ensureInt X (map_index (KDFParams (ekCrypto k)) ''dklen'') = Inr dkLen \<and>
    ensureInt X (map_index (KDFParams (ekCrypto k)) ''n'') = Inr n \<and>
    ensureInt X (map_index (KDFParams (ekCrypto k)) ''r'') = Inr r \<and>
    ensureInt X (map_index (KDFParams (ekCrypto k)) ''p'') = Inr p \<and>
    scrypt_Key X (bytes_of_string auth) salt n r p dkLen = Some dk \<and>
    32 \<le> length dk \<and>
    keccak256 X (take 16 (drop 16 dk) @ cipherText) = mac \<longrightarrow>
      (\<exists>plainText.
         aesCTRXOR X (take 16 dk) cipherText iv = Inr plainText \<and>
         GetKey X ks w a auth =
           ([OpKDF, OpMAC, OpCipher],
            Inr \<lparr>Key_Id = uuid_Parse X (ekId k), Key_Address = a, Key_PrivateKey = plainText\<rparr>)))"
proof -
  have byKey: "GetKey X ks w a auth =
        (case getKDFKey X (ekCrypto k) auth of
           (t, Inl e) \<Rightarrow> (t, Inl e)
         | (t, Inr derivedKey) \<Rightarrow>
             if length derivedKey < 32 then (t, Inl Panic)
             else if keccak256 X (take 16 (drop 16 derivedKey) @ cipherText) \<noteq> mac
             then (t @ [OpMAC], Inl MACMismatch)
             else (t @ [OpMAC, OpCipher],
                   case aesCTRXOR X (take 16 derivedKey) cipherText iv of
                     Inl e \<Rightarrow> Inl e
                   | Inr plainText \<Rightarrow>
                       Inr \<lparr>Key_Id = uuid_Parse X (ekId k), Key_Address = a,
                            Key_PrivateKey = plainText\<rparr>))"
    if env: "getKey_envelope w (keysDirPath ks) a = Inr k"
      and v: "ekVersion k = 3" and ci: "Cipher (ekCrypto k) = ''aes-128-ctr''"
      and m: "hex_DecodeString (MAC (ekCrypto k)) = Inr mac"
      and i: "hex_DecodeString (IV (CipherParams (ekCrypto k))) = Inr iv"
      and c: "hex_DecodeString (CipherText (ekCrypto k)) = Inr cipherText"
    for iv
    unfolding GetKey_def decryptKeyFromFile_envelope [OF env]
      decryptKey_by_derived_key [OF v ci m i c]
    by (cases "getKDFKey X (ekCrypto k) auth")
       (simp add: ToECDSA_def split: sum.splits)
  have decrypts: "\<exists>plainText.
         aesCTRXOR X (take 16 dk) cipherText iv = Inr plainText \<and>
         GetKey X ks w a auth =
           ([OpKDF, OpMAC, OpCipher],
            Inr \<lparr>Key_Id = uuid_Parse X (ekId k), Key_Address = a, Key_PrivateKey = plainText\<rparr>)"
    if env: "getKey_envelope w (keysDirPath ks) a = Inr k"
      and v: "ekVersion k = 3" and ci: "Cipher (ekCrypto k) = ''aes-128-ctr''"
      and m: "hex_DecodeString (MAC (ekCrypto k)) = Inr mac"
      and i: "hex_DecodeString (IV (CipherParams (ekCrypto k))) = Inr iv"
      and il: "length iv = 16"
      and c: "hex_DecodeString (CipherText (ekCrypto k)) = Inr cipherText"
      and g: "getKDFKey X (ekCrypto k) auth = ([OpKDF], Inr dk)"
      and l: "32 \<le> length dk"
      and eq: "keccak256 X (take 16 (drop 16 dk) @ cipherText) = mac"
    for dk
  proof -
    obtain pt where x: "aesCTRXOR X (take 16 dk) cipherText iv = Inr pt"
      using il l by (simp add: aesCTRXOR_def)
    have "GetKey X ks w a auth =
           ([OpKDF, OpMAC, OpCipher],
            Inr \<lparr>Key_Id = uuid_Parse X (ekId k), Key_Address = a, Key_PrivateKey = pt\<rparr>)"
      using l eq by (simp add: byKey [OF env v ci m i c] g x)
    with x show ?thesis by blast
  qed
  show ?thesis
  proof (intro conjI impI)
    assume "keysDirPath ks = keysDirPath ks'"
    then show "GetKey X ks w a auth = GetKey X ks' w a auth"
      by (simp add: GetKey_def)
  next
    assume "getKey_envelope w (keysDirPath ks) a = Inr k"
    then show "GetKey X ks w a auth =
        (case decryptKey X k auth of
           (t, Inl err) \<Rightarrow> (t, Inl err)
         | (t, Inr (keyBytes, keyId)) \<Rightarrow>
             (t, Inr \<lparr>Key_Id = keyId, Key_Address = a, Key_PrivateKey = ToECDSA keyBytes\<rparr>))"
      by (simp add: GetKey_def decryptKeyFromFile_envelope)
  next
    assume "getKey_envelope w (keysDirPath ks) a = Inr k \<and>
      ekVersion k = 3 \<and> Cipher (ekCrypto k) = ''aes-128-ctr'' \<and>
      hex_DecodeString (MAC (ekCrypto k)) = Inr mac \<and>
      hex_DecodeString (IV (CipherParams (ekCrypto k))) = Inr iv \<and>
      hex_DecodeString (CipherText (ekCrypto k)) = Inr cipherText"
    then show "GetKey X ks w a auth =
        (case getKDFKey X (ekCrypto k) auth of
           (t, Inl e) \<Rightarrow> (t, Inl e)
         | (t, Inr derivedKey) \<Rightarrow>
             if length derivedKey < 32 then (t, Inl Panic)
             else if keccak256 X (take 16 (drop 16 derivedKey) @ cipherText) \<noteq> mac
             then (t @ [OpMAC], Inl MACMismatch)
             else (t @ [OpMAC, OpCipher],
                   case aesCTRXOR X (take 16 derivedKey) cipherText iv of
                     Inl e \<Rightarrow> Inl e
                   | Inr plainText \<Rightarrow>
                       Inr \<lparr>Key_Id = uuid_Parse X (ekId k), Key_Address = a,
                            Key_PrivateKey = plainText\<rparr>))"
      by (simp add: byKey)
  next
    assume "KDF cj = ''pbkdf2'' \<and>
      assert_string (map_index (KDFParams cj) ''salt'') = Inr saltHex \<and>
      hex_DecodeString saltHex = Inr salt \<and>
      ensureInt X (map_index (KDFParams cj) ''dklen'') = Inr dkLen \<and>
      ensureInt X (map_index (KDFParams cj) ''c'') = Inr c \<and>
      assert_string (map_index (KDFParams cj) ''prf'') = Inr ''hmac-sha256''"
    then show "getKDFKey X cj auth = ([OpKDF], Inr (pbkdf2_Key X (bytes_of_string auth) salt c dkLen))"
      by (simp add: getKDFKey_def Let_def)
  next
    assume "KDF cj = ''scrypt'' \<and>
      assert_string (map_index (KDFParams cj) ''salt'') = Inr saltHex \<and>
      hex_DecodeString saltHex = Inr salt \<and>
      ensureInt X (map_index (KDFParams cj) ''dklen'') = Inr dkLen \<and>
      ensureInt X (map_index (KDFParams cj) ''n'') = Inr n \<and>
      ensureInt X (map_index (KDFParams cj) ''r'') = Inr r \<and>
      ensureInt X (map_index (KDFParams cj) ''p'') = Inr p"
    then show "getKDFKey X cj auth =
        ([OpKDF],
         case scrypt_Key X (bytes_of_string auth) salt n r p dkLen of
           None \<Rightarrow> Inl ScryptError
         | Some key \<Rightarrow> Inr key)"
      by (simp add: getKDFKey_def Let_def)
  next
    assume h: "getKey_envelope w (keysDirPath ks) a = Inr k \<and>
      ekVersion k = 3 \<and> Cipher (ekCrypto k) = ''aes-128-ctr'' \<and>
      hex_DecodeString (MAC (ekCrypto k)) = Inr mac \<and>
      hex_DecodeString (IV (CipherParams (ekCrypto k))) = Inr iv \<and> length iv = 16 \<and>
      hex_DecodeString (CipherText (ekCrypto k)) = Inr cipherText \<and>
      KDF (ekCrypto k) = ''pbkdf2'' \<and>
      assert_string (map_index (KDFParams (ekCrypto k)) ''salt'') = Inr saltHex \<and>
      hex_DecodeString saltHex = Inr salt \<and>
      ensureInt X (map_index (KDFParams (ekCrypto k)) ''dklen'') = Inr dkLen \<and>
      ensureInt X (map_index (KDFParams (ekCrypto k)) ''c'') = Inr c \<and>
      assert_string (map_index (KDFParams (ekCrypto k)) ''prf'') = Inr ''hmac-sha256'' \<and>
      pbkdf2_Key X (bytes_of_string auth) salt c dkLen = dk \<and>
      32 \<le> length dk \<and>
      keccak256 X (take 16 (drop 16 dk) @ cipherText) = mac"
    then have g: "getKDFKey X (ekCrypto k) auth = ([OpKDF], Inr dk)"
      by (simp add: getKDFKey_def Let_def)
    from h show "\<exists>plainText.
         aesCTRXOR X (take 16 dk) cipherText iv = Inr plainText \<and>
         GetKey X ks w a auth =
           ([OpKDF, OpMAC, OpCipher],
            Inr \<lparr>Key_Id = uuid_Parse X (ekId k), Key_Address = a, Key_PrivateKey = plainText\<rparr>)"
      by (intro decrypts g) simp_all
  next
    assume h: "getKey_envelope w (keysDirPath ks) a = Inr k \<and>
      ekVersion k = 3 \<and> Cipher (ekCrypto k) = ''aes-128-ctr'' \<and>
      hex_DecodeString (MAC (ekCrypto k)) = Inr mac \<and>
      hex_DecodeString (IV (CipherParams (ekCrypto k))) = Inr iv \<and> length iv = 16 \<and>
      hex_DecodeString (CipherText (ekCrypto k)) = Inr cipherText \<and>
      KDF (ekCrypto k) = ''scrypt'' \<and>
      assert_string (map_index (KDFParams (ekCrypto k)) ''salt'') = Inr saltHex \<and>
      hex_DecodeString saltHex = Inr salt \<and>
      ensureInt X (map_index (KDFParams (ekCrypto k)) ''dklen'') = Inr dkLen \<and>
      ensureInt X (map_index (KDFParams (ekCrypto k)) ''n'') = Inr n \<and>
      ensureInt X (map_index (KDFParams (ekCrypto k)) ''r'') = Inr r \<and>
      ensureInt X (map_index (KDFParams (ekCrypto k)) ''p'') = Inr p \<and>
      scrypt_Key X (bytes_of_string auth) salt n r p dkLen = Some dk \<and>
      32 \<le> length dk \<and>
      keccak256 X (take 16 (drop 16 dk) @ cipherText) = mac"
    then have g: "getKDFKey X (ekCrypto k) auth = ([OpKDF], Inr dk)"
      by (simp add: getKDFKey_def Let_def)
    from h show "\<exists>plainText.
         aesCTRXOR X (take 16 dk) cipherText iv = Inr plainText \<and>
         GetKey X ks w a auth =
           ([OpKDF, OpMAC, OpCipher],
            Inr \<lparr>Key_Id = uuid_Parse X (ekId k), Key_Address = a, Key_PrivateKey = plainText\<rparr>)"
      by (intro decrypts g) simp_all
  qed
qed

theorem GetKey_uses_file_kdf_witness:
  "GetKey demo_ext (NewKeyStorePassphrase ''keys'' KDFStandard) pbkdf2_world (replicate 20 187) ''pw'' =
     (case decryptKey demo_ext pbkdf2_envelope ''pw'' of
        (t, Inl err) \<Rightarrow> (t, Inl err)
      | (t, Inr (keyBytes, keyId)) \<Rightarrow>
          (t, Inr \<lparr>Key_Id = keyId, Key_Address = replicate 20 187,
                    Key_PrivateKey = ToECDSA keyBytes\<rparr>)) \<and>
   GetKey demo_ext (NewKeyStorePassphrase ''keys'' KDFStandard) pbkdf2_world (replicate 20 187) ''pw'' =
     ([OpKDF, OpMAC, OpCipher],
      Inr \<lparr>Key_Id = [], Key_Address = replicate 20 187, Key_PrivateKey = [42, 42]\<rparr>) \<and>
   GetKey demo_ext (NewKeyStorePassphrase ''keys'' KDFLight) pbkdf2_world (replicate 20 187) ''pw'' =
     ([OpKDF, OpMAC, OpCipher],
      Inr \<lparr>Key_Id = [], Key_Address = replicate 20 187, Key_PrivateKey = [42, 42]\<rparr>) \<and>
   GetKey demo_ext (NewKeyStorePassphrase ''keys'' KDFStandard) scrypt_world (replicate 20 204) ''pw'' =
     ([OpKDF, OpMAC, OpCipher],
      Inr \<lparr>Key_Id = [], Key_Address = replicate 20 204, Key_PrivateKey = [42, 42]\<rparr>) \<and>
   GetKey demo_ext (NewKeyStorePassphrase ''keys'' KDFLight) scrypt_world (replicate 20 204) ''pw'' =
     ([OpKDF, OpMAC, OpCipher],
      Inr \<lparr>Key_Id = [], Key_Address = replicate 20 204, Key_PrivateKey = [42, 42]\<rparr>) \<and>
   GetKey demo_ext (NewKeyStorePassphrase ''keys'' KDFStandard) pbkdf2_world (replicate 20 187) ''wrong horse'' =
     ([OpKDF, OpMAC], Inl MACMismatch) \<and>
   getKDFKey demo_ext pbkdf2_crypto ''pw'' =
     ([OpKDF], Inr (pbkdf2_Key demo_ext (bytes_of_string ''pw'') [171] 1000 32)) \<and>
   getKDFKey demo_ext scrypt_crypto ''pw'' =
     ([OpKDF],
      case scrypt_Key demo_ext (bytes_of_string ''pw'') [171] 1024 4 2 32 of
        None \<Rightarrow> Inl ScryptError
      | Some key \<Rightarrow> Inr key)"
proof -
  let ?std = "NewKeyStorePassphrase ''keys'' KDFStandard"
  let ?light = "NewKeyStorePassphrase ''keys'' KDFLight"
  let ?iv = "map of_nat [0..<16] :: bytes"
  let ?mac = "replicate 31 18 @ [181] :: bytes"
  let ?mac2 = "replicate 31 18 @ [53] :: bytes"
  let ?dk = "pbkdf2_Key demo_ext (bytes_of_string ''pw'') [171] 1000 32"
  let ?dk2 = "replicate 32 146 :: bytes"
  have dir: "keysDirPath ?std = keysDirPath ?light"
    by (simp add: NewKeyStorePassphrase_def)
  have env: "getKey_envelope pbkdf2_world (keysDirPath ?std) (replicate 20 187) = Inr pbkdf2_envelope"
    using pbkdf2_world_envelope by (simp add: NewKeyStorePassphrase_def)
  have env2: "getKey_envelope scrypt_world (keysDirPath ?std) (replicate 20 204) = Inr scrypt_envelope"
    using scrypt_world_envelope by (simp add: NewKeyStorePassphrase_def)
  have gates: "ekVersion pbkdf2_envelope = 3 \<and> Cipher (ekCrypto pbkdf2_envelope) = ''aes-128-ctr'' \<and>
      hex_DecodeString (MAC (ekCrypto pbkdf2_envelope)) = Inr ?mac \<and>
      hex_DecodeString (IV (CipherParams (ekCrypto pbkdf2_envelope))) = Inr ?iv \<and> length ?iv = 16 \<and>
      hex_DecodeString (CipherText (ekCrypto pbkdf2_envelope)) = Inr [10, 11]"
    by code_simp
  have gates2: "ekVersion scrypt_envelope = 3 \<and> Cipher (ekCrypto scrypt_envelope) = ''aes-128-ctr'' \<and>
      hex_DecodeString (MAC (ekCrypto scrypt_envelope)) = Inr ?mac2 \<and>
      hex_DecodeString (IV (CipherParams (ekCrypto scrypt_envelope))) = Inr ?iv \<and> length ?iv = 16 \<and>
      hex_DecodeString (CipherText (ekCrypto scrypt_envelope)) = Inr [10, 11]"
    by code_simp
  have p: "KDF (ekCrypto pbkdf2_envelope) = ''pbkdf2'' \<and>
      assert_string (map_index (KDFParams (ekCrypto pbkdf2_envelope)) ''salt'') = Inr ''ab'' \<and>
      hex_DecodeString ''ab'' = Inr [171] \<and>
      ensureInt demo_ext (map_index (KDFParams (ekCrypto pbkdf2_envelope)) ''dklen'') = Inr 32 \<and>
      ensureInt demo_ext (map_index (KDFParams (ekCrypto pbkdf2_envelope)) ''c'') = Inr 1000 \<and>
      assert_string (map_index (KDFParams (ekCrypto pbkdf2_envelope)) ''prf'') = Inr ''hmac-sha256'' \<and>
      32 \<le> length ?dk \<and>
      keccak256 demo_ext (take 16 (drop 16 ?dk) @ [10, 11]) = ?mac"
    by code_simp
  have s: "KDF (ekCrypto scrypt_envelope) = ''scrypt'' \<and>
      assert_string (map_index (KDFParams (ekCrypto scrypt_envelope)) ''salt'') = Inr ''AB'' \<and>
      hex_DecodeString ''AB'' = Inr [171] \<and>
      ensureInt demo_ext (map_index (KDFParams (ekCrypto scrypt_envelope)) ''dklen'') = Inr 32 \<and>
      ensureInt demo_ext (map_index (KDFParams (ekCrypto scrypt_envelope)) ''n'') = Inr 1024 \<and>
      ensureInt demo_ext (map_index (KDFParams (ekCrypto scrypt_envelope)) ''r'') = Inr 4 \<and>
      ensureInt demo_ext (map_index (KDFParams (ekCrypto scrypt_envelope)) ''p'') = Inr 2 \<and>
      scrypt_Key demo_ext (bytes_of_string ''pw'') [171] 1024 4 2 32 = Some ?dk2 \<and>
      32 \<le> length ?dk2 \<and>
      keccak256 demo_ext (take 16 (drop 16 ?dk2) @ [10, 11]) = ?mac2"
    by code_simp
  have pc: "KDF pbkdf2_crypto = ''pbkdf2'' \<and>
      assert_string (map_index (KDFParams pbkdf2_crypto) ''salt'') = Inr ''ab'' \<and>
      ensureInt demo_ext (map_index (KDFParams pbkdf2_crypto) ''dklen'') = Inr 32 \<and>
      ensureInt demo_ext (map_index (KDFParams pbkdf2_crypto) ''c'') = Inr 1000 \<and>
      assert_string (map_index (KDFParams pbkdf2_crypto) ''prf'') = Inr ''hmac-sha256''"
    by code_simp
  have sc: "KDF scrypt_crypto = ''scrypt'' \<and>
      assert_string (map_index (KDFParams scrypt_crypto) ''salt'') = Inr ''AB'' \<and>
      ensureInt demo_ext (map_index (KDFParams scrypt_crypto) ''dklen'') = Inr 32 \<and>
      ensureInt demo_ext (map_index (KDFParams scrypt_crypto) ''n'') = Inr 1024 \<and>
      ensureInt demo_ext (map_index (KDFParams scrypt_crypto) ''r'') = Inr 4 \<and>
      ensureInt demo_ext (map_index (KDFParams scrypt_crypto) ''p'') = Inr 2"
    by code_simp
  have x: "aesCTRXOR demo_ext (take 16 ?dk) [10, 11] ?iv = Inr [42, 42] \<and>
      aesCTRXOR demo_ext (take 16 ?dk2) [10, 11] ?iv = Inr [42, 42] \<and>
      uuid_Parse demo_ext (ekId pbkdf2_envelope) = [] \<and>
      uuid_Parse demo_ext (ekId scrypt_envelope) = []"
    by code_simp
  have wrong: "(case getKDFKey demo_ext (ekCrypto pbkdf2_envelope) ''wrong horse'' of
           (t, Inl e) \<Rightarrow> (t, Inl e)
         | (t, Inr derivedKey) \<Rightarrow>
             if length derivedKey < 32 then (t, Inl Panic)
             else if keccak256 demo_ext (take 16 (drop 16 derivedKey) @ [10, 11]) \<noteq> ?mac
             then (t @ [OpMAC], Inl MACMismatch)
             else (t @ [OpMAC, OpCipher],
                   case aesCTRXOR demo_ext (take 16 derivedKey) [10, 11] ?iv of
                     Inl e \<Rightarrow> Inl e
                   | Inr plainText \<Rightarrow>
                       Inr \<lparr>Key_Id = uuid_Parse demo_ext (ekId pbkdf2_envelope),
                            Key_Address = replicate 20 187, Key_PrivateKey = plainText\<rparr>)) =
       ([OpKDF, OpMAC], Inl MACMismatch)"
    by code_simp
  note T1 = GetKey_uses_file_kdf
    [where ks = ?std and ks' = ?light and X = demo_ext and w = pbkdf2_world
      and a = "replicate 20 187" and auth = "''pw''" and k = pbkdf2_envelope
      and mac = ?mac and iv = ?iv and cipherText = "[10, 11]"
      and cj = pbkdf2_crypto and saltHex = "''ab''" and salt = "[171]" and dkLen = 32
      and c = 1000 and dk = ?dk]
  note T2 = GetKey_uses_file_kdf
    [where ks = ?std and ks' = ?light and X = demo_ext and w = scrypt_world
      and a = "replicate 20 204" and auth = "''pw''" and k = scrypt_envelope
      and mac = ?mac2 and iv = ?iv and cipherText = "[10, 11]"
      and cj = scrypt_crypto and saltHex = "''AB''" and salt = "[171]" and dkLen = 32
      and n = 1024 and r = 4 and p = 2 and dk = ?dk2]
  note T3 = GetKey_uses_file_kdf
    [where ks = ?std and X = demo_ext and w = pbkdf2_world
      and a = "replicate 20 187" and auth = "''wrong horse''" and k = pbkdf2_envelope
      and mac = ?mac and iv = ?iv and cipherText = "[10, 11]"]
  from T1 dir have e1: "GetKey demo_ext ?std pbkdf2_world (replicate 20 187) ''pw'' =
      GetKey demo_ext ?light pbkdf2_world (replicate 20 187) ''pw''"
    by blast
  from T2 dir have e2: "GetKey demo_ext ?std scrypt_world (replicate 20 204) ''pw'' =
      GetKey demo_ext ?light scrypt_world (replicate 20 204) ''pw''"
    by blast
  from T1 env gates p have "\<exists>plainText.
      aesCTRXOR demo_ext (take 16 ?dk) [10, 11] ?iv = Inr plainText \<and>
      GetKey demo_ext ?std pbkdf2_world (replicate 20 187) ''pw'' =
        ([OpKDF, OpMAC, OpCipher],
         Inr \<lparr>Key_Id = uuid_Parse demo_ext (ekId pbkdf2_envelope),
              Key_Address = replicate 20 187, Key_PrivateKey = plainText\<rparr>)"
    by blast
  with x have g1: "GetKey demo_ext ?std pbkdf2_world (replicate 20 187) ''pw'' =
      ([OpKDF, OpMAC, OpCipher],
       Inr \<lparr>Key_Id = [], Key_Address = replicate 20 187, Key_PrivateKey = [42, 42]\<rparr>)"
    by auto
  from T2 env2 gates2 s have "\<exists>plainText.
      aesCTRXOR demo_ext (take 16 ?dk2) [10, 11] ?iv = Inr plainText \<and>
      GetKey demo_ext ?std scrypt_world (replicate 20 204) ''pw'' =
        ([OpKDF, OpMAC, OpCipher],
         Inr \<lparr>Key_Id = uuid_Parse demo_ext (ekId scrypt_envelope),
              Key_Address = replicate 20 204, Key_PrivateKey = plainText\<rparr>)"
    by blast
  with x have g2: "GetKey demo_ext ?std scrypt_world (replicate 20 204) ''pw'' =
      ([OpKDF, OpMAC, OpCipher],
       Inr \<lparr>Key_Id = [], Key_Address = replicate 20 204, Key_PrivateKey = [42, 42]\<rparr>)"
    by auto
  from T3 env gates have "GetKey demo_ext ?std pbkdf2_world (replicate 20 187) ''wrong horse'' =
      (case getKDFKey demo_ext (ekCrypto pbkdf2_envelope) ''wrong horse'' of
           (t, Inl e) \<Rightarrow> (t, Inl e)
         | (t, Inr derivedKey) \<Rightarrow>
             if length derivedKey < 32 then (t, Inl Panic)
             else if keccak256 demo_ext (take 16 (drop 16 derivedKey) @ [10, 11]) \<noteq> ?mac
             then (t @ [OpMAC], Inl MACMismatch)
             else (t @ [OpMAC, OpCipher],
                   case aesCTRXOR demo_ext (take 16 derivedKey) [10, 11] ?iv of
                     Inl e \<Rightarrow> Inl e
                   | Inr plainText \<Rightarrow>
                       Inr \<lparr>Key_Id = uuid_Parse demo_ext (ekId pbkdf2_envelope),
                            Key_Address = replicate 20 187, Key_PrivateKey = plainText\<rparr>))"
    by blast
  then have g3: "GetKey demo_ext ?std pbkdf2_world (replicate 20 187) ''wrong horse'' =
      ([OpKDF, OpMAC], Inl MACMismatch)"
    by (simp only: wrong)
  from T1 pc p have k1: "getKDFKey demo_ext pbkdf2_crypto ''pw'' =
      ([OpKDF], Inr (pbkdf2_Key demo_ext (bytes_of_string ''pw'') [171] 1000 32))"
    by blast
  from T2 sc s have k2: "getKDFKey demo_ext scrypt_crypto ''pw'' =
      ([OpKDF],
       case scrypt_Key demo_ext (bytes_of_string ''pw'') [171] 1024 4 2 32 of
         None \<Rightarrow> Inl ScryptError
       | Some key \<Rightarrow> Inr key)"
    by blast
  from g1 e1 have g1': "GetKey demo_ext ?light pbkdf2_world (replicate 20 187) ''pw'' =
      ([OpKDF, OpMAC, OpCipher],
       Inr \<lparr>Key_Id = [], Key_Address = replicate 20 187, Key_PrivateKey = [42, 42]\<rparr>)"
    by simp
  from g2 e2 have g2': "GetKey demo_ext ?light scrypt_world (replicate 20 204) ''pw'' =
      ([OpKDF, OpMAC, OpCipher],
       Inr \<lparr>Key_Id = [], Key_Address = replicate 20 204, Key_PrivateKey = [42, 42]\<rparr>)"
    by simp
  from T1 env have g0: "GetKey demo_ext ?std pbkdf2_world (replicate 20 187) ''pw'' =
     (case decryptKey demo_ext pbkdf2_envelope ''pw'' of
        (t, Inl err) \<Rightarrow> (t, Inl err)
      | (t, Inr (keyBytes, keyId)) \<Rightarrow>
          (t, Inr \<lparr>Key_Id = keyId, Key_Address = replicate 20 187,
                    Key_PrivateKey = ToECDSA keyBytes\<rparr>))"
    by blast
  from g0 g1 g1' g2 g2' g3 k1 k2 show ?thesis by blast
qed

text \<open>
  Claim C10, as the code has it. The \<open>id\<close> of an envelope decides nothing but the id
  returned: with any other \<open>id\<close>, retrieval fails or succeeds alike and returns the
  same bytes. For every envelope whose \<open>id\<close> parses to nil, \<open>decryptKey\<close> and \<open>GetKey\<close>
  succeed, with a nil id, provided the version and cipher checks and the MAC check
  pass and the IV decodes to 16 bytes.
\<close>

theorem decryptKey_malformed_id:
  "snd (decryptKey X (k\<lparr>ekId := i\<rparr>) auth) =
     (case snd (decryptKey X k auth) of
        Inl e \<Rightarrow> Inl e
      | Inr (plainText, keyId) \<Rightarrow> Inr (plainText, uuid_Parse X i)) \<and>
   (uuid_Parse X (ekId k) = [] \<and> ekVersion k = 3 \<and> Cipher (ekCrypto k) = ''aes-128-ctr'' \<and>
    stored_mac_check X k auth = Some True \<and>
    hex_DecodeString (IV (CipherParams (ekCrypto k))) = Inr iv \<and> length iv = 16 \<longrightarrow>
      (\<exists>plainText.
         decryptKey X k auth = ([OpKDF, OpMAC, OpCipher], Inr (plainText, [])) \<and>
         (getKey_envelope w (keysDirPath ks) a = Inr k \<longrightarrow>
            snd (GetKey X ks w a auth) =
              Inr \<lparr>Key_Id = [], Key_Address = a, Key_PrivateKey = plainText\<rparr>)))"
proof (intro conjI impI)
  show "snd (decryptKey X (k\<lparr>ekId := i\<rparr>) auth) =
     (case snd (decryptKey X k auth) of
        Inl e \<Rightarrow> Inl e
      | Inr (plainText, keyId) \<Rightarrow> Inr (plainText, uuid_Parse X i))"
    by (cases "getKDFKey X (ekCrypto k) auth")
       (simp add: decryptKey_def Let_def split: sum.splits)
next
  assume a: "uuid_Parse X (ekId k) = [] \<and> ekVersion k = 3 \<and> Cipher (ekCrypto k) = ''aes-128-ctr'' \<and>
    stored_mac_check X k auth = Some True \<and>
    hex_DecodeString (IV (CipherParams (ekCrypto k))) = Inr iv \<and> length iv = 16"
  then obtain mac ct dk where
    m: "hex_DecodeString (MAC (ekCrypto k)) = Inr mac"
    and c: "hex_DecodeString (CipherText (ekCrypto k)) = Inr ct"
    and g: "snd (getKDFKey X (ekCrypto k) auth) = Inr dk"
    and l: "32 \<le> length dk"
    and eq: "keccak256 X (take 16 (drop 16 dk) @ ct) = mac"
    by (auto simp: stored_mac_check_def split: sum.splits if_splits)
  from a have iv: "hex_DecodeString (IV (CipherParams (ekCrypto k))) = Inr iv" by simp
  from a have v: "ekVersion k = 3" and ci: "Cipher (ekCrypto k) = ''aes-128-ctr''" by simp_all
  have d: "decryptKey X k auth =
     ([OpKDF, OpMAC, OpCipher],
      case aesCTRXOR X (take 16 dk) ct iv of
        Inl e \<Rightarrow> Inl e
      | Inr plainText \<Rightarrow> Inr (plainText, uuid_Parse X (ekId k)))"
    by (rule decryptKey_success [OF v ci m iv c g l eq])
  obtain pt where x: "aesCTRXOR X (take 16 dk) ct iv = Inr pt"
    using a l by (simp add: aesCTRXOR_def)
  have d': "decryptKey X k auth = ([OpKDF, OpMAC, OpCipher], Inr (pt, []))"
    using a by (simp add: d x)
  show "\<exists>plainText.
         decryptKey X k auth = ([OpKDF, OpMAC, OpCipher], Inr (plainText, [])) \<and>
         (getKey_envelope w (keysDirPath ks) a = Inr k \<longrightarrow>
            snd (GetKey X ks w a auth) =
              Inr \<lparr>Key_Id = [], Key_Address = a, Key_PrivateKey = plainText\<rparr>)"
    by (rule exI [of _ pt])
       (simp add: d' GetKey_def decryptKeyFromFile_envelope ToECDSA_def)
qed

theorem decryptKey_malformed_id_witness:
  "\<exists>plainText.
     decryptKey demo_ext pbkdf2_envelope ''pw'' = ([OpKDF, OpMAC, OpCipher], Inr (plainText, [])) \<and>
     snd (GetKey demo_ext (NewKeyStorePassphrase ''keys'' KDFLight) pbkdf2_world (replicate 20 187) ''pw'') =
       Inr \<lparr>Key_Id = [], Key_Address = replicate 20 187, Key_PrivateKey = plainText\<rparr>"
proof -
  have h: "uuid_Parse demo_ext (ekId pbkdf2_envelope) = [] \<and> ekVersion pbkdf2_envelope = 3 \<and>
      Cipher (ekCrypto pbkdf2_envelope) = ''aes-128-ctr'' \<and>
      stored_mac_check demo_ext pbkdf2_envelope ''pw'' = Some True \<and>
      hex_DecodeString (IV (CipherParams (ekCrypto pbkdf2_envelope))) = Inr (map of_nat [0..<16]) \<and>
      length (map of_nat [0..<16] :: bytes) = 16"
    by code_simp
  have env: "getKey_envelope pbkdf2_world (keysDirPath (NewKeyStorePassphrase ''keys'' KDFLight))
      (replicate 20 187) = Inr pbkdf2_envelope"
    using pbkdf2_world_envelope by (simp add: NewKeyStorePassphrase_def)
  from decryptKey_malformed_id
    [where X = demo_ext and k = pbkdf2_envelope and auth = "''pw''" and iv = "map of_nat [0..<16]"
      and w = pbkdf2_world and ks = "NewKeyStorePassphrase ''keys'' KDFLight" and a = "replicate 20 187"]
    h env
  show ?thesis by blast
qed

text \<open>
  Claim C10 as stated fails at an envelope with a malformed \<open>id\<close> and an IV of two
  bytes: the version, cipher and MAC checks pass (the MAC does not cover the IV), and
  retrieval, by \<open>decryptKey\<close> and by \<open>GetKey\<close> on the stored file, fails in the cipher.
\<close>

theorem decryptKey_malformed_id_counterexample:
  "uuid_Parse demo_ext (ekId short_iv_envelope) = [] \<and>
   ekVersion short_iv_envelope = 3 \<and>
   Cipher (ekCrypto short_iv_envelope) = ''aes-128-ctr'' \<and>
   stored_mac_check demo_ext short_iv_envelope ''pw'' = Some True \<and>
   decryptKey demo_ext short_iv_envelope ''pw'' = ([OpKDF, OpMAC, OpCipher], Inl Panic) \<and>
   GetKey demo_ext (NewKeyStorePassphrase ''keys'' KDFLight) short_iv_world (replicate 20 187) ''pw'' =
     ([OpKDF, OpMAC, OpCipher], Inl Panic)"
  by code_simp

text \<open>
  Claim C6. When decryption with the given passphrase fails, for any reason,
  \<open>DeleteKey\<close> returns that error and leaves the state, and so the stored file, as it
  was. When it succeeds, \<open>DeleteKey\<close> is the removal of the file. So whenever
  \<open>DeleteKey\<close> succeeds, or changes anything, decryption had succeeded.
\<close>

theorem DeleteKey_gated:
  "(snd (decryptKeyFromFile X w (keysDirPath ks) a auth) = Inl e \<longrightarrow>
      DeleteKey X ks a auth w = (Some e, w)) \<and>
   (snd (GetKey X ks w a auth) = Inl e \<longrightarrow> DeleteKey X ks a auth w = (Some e, w)) \<and>
   ((\<exists>k. snd (GetKey X ks w a auth) = Inr k) \<longrightarrow>
      DeleteKey X ks a auth w = deleteKey (keysDirPath ks) a w) \<and>
   (fst (DeleteKey X ks a auth w) = None \<longrightarrow>
      (\<exists>k. snd (GetKey X ks w a auth) = Inr k) \<and>
      files (snd (DeleteKey X ks a auth w)) = (files w)((keysDirPath ks, a) := None)) \<and>
   (snd (DeleteKey X ks a auth w) \<noteq> w \<longrightarrow> (\<exists>k. snd (GetKey X ks w a auth) = Inr k))"
  by (cases "decryptKeyFromFile X w (keysDirPath ks) a auth")
     (auto simp: DeleteKey_def GetKey_def deleteKey_def split: sum.splits if_splits prod.splits)

theorem DeleteKey_gated_witness:
  "DeleteKey demo_ext (NewKeyStorePassphrase ''keys'' KDFLight) (replicate 20 187) ''wrong horse'' pbkdf2_world =
     (Some MACMismatch, pbkdf2_world) \<and>
   DeleteKey demo_ext (NewKeyStorePassphrase ''keys'' KDFLight) (replicate 20 187) ''pw'' pbkdf2_world =
     deleteKey (keysDirPath (NewKeyStorePassphrase ''keys'' KDFLight)) (replicate 20 187) pbkdf2_world \<and>
   fst (DeleteKey demo_ext (NewKeyStorePassphrase ''keys'' KDFLight) (replicate 20 187) ''pw'' pbkdf2_world) = None \<and>
   files (snd (DeleteKey demo_ext (NewKeyStorePassphrase ''keys'' KDFLight) (replicate 20 187) ''pw'' pbkdf2_world)) =
     (files pbkdf2_world)((keysDirPath (NewKeyStorePassphrase ''keys'' KDFLight), replicate 20 187) := None)"
proof -
  have bad: "snd (decryptKeyFromFile demo_ext pbkdf2_world (keysDirPath (NewKeyStorePassphrase ''keys'' KDFLight))
       (replicate 20 187) ''wrong horse'') = Inl MACMismatch"
    by code_simp
  have bad': "snd (GetKey demo_ext (NewKeyStorePassphrase ''keys'' KDFLight) pbkdf2_world
       (replicate 20 187) ''wrong horse'') = Inl MACMismatch"
    by code_simp
  have get: "snd (GetKey demo_ext (NewKeyStorePassphrase ''keys'' KDFLight) pbkdf2_world
       (replicate 20 187) ''pw'') =
     Inr \<lparr>Key_Id = [], Key_Address = replicate 20 187, Key_PrivateKey = [42, 42]\<rparr>"
    by code_simp
  have good: "fst (DeleteKey demo_ext (NewKeyStorePassphrase ''keys'' KDFLight) (replicate 20 187) ''pw'' pbkdf2_world) = None"
    by code_simp
  from DeleteKey_gated
    [of demo_ext pbkdf2_world "NewKeyStorePassphrase ''keys'' KDFLight" "replicate 20 187" "''wrong horse''" MACMismatch]
    bad bad'
  have 1: "DeleteKey demo_ext (NewKeyStorePassphrase ''keys'' KDFLight) (replicate 20 187) ''wrong horse'' pbkdf2_world =
     (Some MACMismatch, pbkdf2_world)"
    by blast
  from DeleteKey_gated
    [of demo_ext pbkdf2_world "NewKeyStorePassphrase ''keys'' KDFLight" "replicate 20 187" "''pw''"]
    good get
  have 2: "DeleteKey demo_ext (NewKeyStorePassphrase ''keys'' KDFLight) (replicate 20 187) ''pw'' pbkdf2_world =
     deleteKey (keysDirPath (NewKeyStorePassphrase ''keys'' KDFLight)) (replicate 20 187) pbkdf2_world \<and>
     files (snd (DeleteKey demo_ext (NewKeyStorePassphrase ''keys'' KDFLight) (replicate 20 187) ''pw'' pbkdf2_world)) =
     (files pbkdf2_world)((keysDirPath (NewKeyStorePassphrase ''keys'' KDFLight), replicate 20 187) := None)"
    by blast
  from 1 good 2 show ?thesis by blast
qed

section \<open>The write path and the round trip\<close>

lemma aesCTRXOR_length:
  "aesCTRXOR X key inText iv = Inr out \<Longrightarrow> length out = length inText"
  by (auto simp: aesCTRXOR_def split: if_splits)

lemma xor_keystream_involution:
  "map (\<lambda>(i, b). b XOR f i) (zip [0..<length (map (\<lambda>(i, b). b XOR f i) (zip [0..<length xs] xs))]
      (map (\<lambda>(i, b). b XOR f i) (zip [0..<length xs] xs))) = (xs :: bytes)"
  by (rule nth_equalityI) (simp_all add: bit.xor_self xor.assoc)

lemma aesCTRXOR_involution:
  "aesCTRXOR X key inText iv = Inr out \<Longrightarrow> aesCTRXOR X key out iv = Inr inText"
  using xor_keystream_involution [of "aes_ctr_keystream X key iv" inText]
  by (auto simp: aesCTRXOR_def split: if_splits)

lemma StoreKey_success:
  assumes ok: "fst (StoreKey X ks key auth w) = None"
  defines "salt \<equiv> take 32 (entropy w)"
    and "iv \<equiv> take 16 (drop 32 (entropy w))"
  shows "\<exists>dk ct.
     48 \<le> length (entropy w) \<and>
     scrypt_Key X (bytes_of_string auth) salt (scryptN ks) (scryptR ks) (scryptP ks) (scryptDKLen ks) = Some dk \<and>
     32 \<le> length dk \<and>
     aesCTRXOR X (take 16 dk) (Key_PrivateKey key) iv = Inr ct \<and>
     \<not> io_fails w (keysDirPath ks, Key_Address key) \<and>
     snd (StoreKey X ks key auth w) =
       w\<lparr>entropy := drop 48 (entropy w),
         files := (files w)((keysDirPath ks, Key_Address key) \<mapsto>
           json_Marshal
             \<lparr>ekAddress = hex_EncodeToString (Key_Address key),
              ekCrypto =
                \<lparr>Cipher = ''aes-128-ctr'',
                 CipherText = hex_EncodeToString ct,
                 CipherParams = \<lparr>IV = hex_EncodeToString iv\<rparr>,
                 KDF = ''scrypt'',
                 KDFParams =
                   [''n'' \<mapsto> IInt (scryptN ks),
                    ''r'' \<mapsto> IInt (scryptR ks),
                    ''p'' \<mapsto> IInt (scryptP ks),
                    ''dklen'' \<mapsto> IInt (scryptDKLen ks),
                    ''salt'' \<mapsto> IString (hex_EncodeToString salt)],
                 MAC = hex_EncodeToString (keccak256 X (take 16 (drop 16 dk) @ ct))\<rparr>,
              ekId = uuid_String X (Key_Id key),
              ekVersion = 3\<rparr>)\<rparr>"
  using ok unfolding salt_def iv_def
  by (auto simp: StoreKey_def GetEntropyCSPRNG_def slice_def Sha3_def FromECDSA_def Let_def
      writeKeyFile_def version_def drop_take
      split: sum.splits option.splits if_splits prod.splits)


lemma NewKeyStorePassphrase_in_range: "ks_in_range (NewKeyStorePassphrase path safety)"
  by (simp add: ks_in_range_def NewKeyStorePassphrase_def int_in_range_def stdScryptN_def
      stdScryptP_def lightScryptN_def lightScryptP_def scryptR_const_def scryptDKLen_const_def)

lemma unmarshal_marshal:
  assumes "int_in_range (ekVersion e)"
  shows "unmarshal_encryptedKeyJSON (json_Marshal e) =
     Some (e\<lparr>ekCrypto := (ekCrypto e)\<lparr>KDFParams :=
        (\<lambda>k. map_option (\<lambda>v. json_to_iface (iface_to_json v)) (KDFParams (ekCrypto e) k))\<rparr>\<rparr>)"
  using assms
  by (cases e; cases "ekCrypto e"; cases "CipherParams (ekCrypto e)")
     (simp add: json_Marshal_def marshal_cryptoJSON_def option.map_comp comp_def)

lemma int_of_float64_of_int:
  "int_in_range n \<Longrightarrow> int_of_float64 X (Float64 n 0) = n"
  by (simp add: int_of_float64_def)

lemma getKDFKey_stored:
  assumes "ks_in_range ks"
  shows "getKDFKey X
     \<lparr>Cipher = ci, CipherText = ct, CipherParams = cp, KDF = ''scrypt'',
      KDFParams = (\<lambda>k. map_option (\<lambda>v. json_to_iface (iface_to_json v))
         ([''n'' \<mapsto> IInt (scryptN ks),
           ''r'' \<mapsto> IInt (scryptR ks),
           ''p'' \<mapsto> IInt (scryptP ks),
           ''dklen'' \<mapsto> IInt (scryptDKLen ks),
           ''salt'' \<mapsto> IString (hex_EncodeToString salt)] k)),
      MAC = mac\<rparr> auth =
     ([OpKDF],
      case scrypt_Key X (bytes_of_string auth) salt (scryptN ks) (scryptR ks) (scryptP ks) (scryptDKLen ks) of
        None \<Rightarrow> Inl ScryptError | Some key \<Rightarrow> Inr key)"
  using assms
  by (simp add: getKDFKey_def map_index_def hex_roundtrip int_of_float64_of_int ks_in_range_def)

lemma example_store_ok:
  "fst (StoreKey demo_ext (NewKeyStorePassphrase ''keys'' KDFLight) example_key ''correct horse'' example_world) = None"
  by code_simp

text \<open>
  Claim C1. For every key with a UUID of 16 bytes and every passphrase, once
  \<open>StoreKey\<close> has succeeded on a store made by \<open>NewKeyStorePassphrase\<close>, \<open>GetKey\<close> for
  the key's address and the same passphrase, on any store over the same directory,
  succeeds and returns the key: id, address and private-key bytes.
\<close>

theorem StoreKey_GetKey_roundtrip:
  assumes law: "uuid_lawful X"
    and id16: "length (Key_Id key) = 16"
    and ks: "ks = NewKeyStorePassphrase path safety"
    and ks': "keysDirPath ks' = path"
    and ok: "fst (StoreKey X ks key auth w) = None"
  shows "snd (GetKey X ks' (snd (StoreKey X ks key auth w)) (Key_Address key) auth) = Inr key"
proof -
  have rng: "ks_in_range ks"
    using ks NewKeyStorePassphrase_in_range by simp
  have dir: "keysDirPath ks = path"
    using ks by (simp add: NewKeyStorePassphrase_def)
  define salt where "salt = take 32 (entropy w)"
  define iv where "iv = take 16 (drop 32 (entropy w))"
  from StoreKey_success [OF ok] obtain dk ct where
    kdf: "scrypt_Key X (bytes_of_string auth) salt (scryptN ks) (scryptR ks)
            (scryptP ks) (scryptDKLen ks) = Some dk"
    and len: "32 \<le> length dk"
    and enc: "aesCTRXOR X (take 16 dk) (Key_PrivateKey key) iv = Inr ct"
    and w': "snd (StoreKey X ks key auth w) =
       w\<lparr>entropy := drop 48 (entropy w),
         files := (files w)((keysDirPath ks, Key_Address key) \<mapsto>
           json_Marshal
             \<lparr>ekAddress = hex_EncodeToString (Key_Address key),
              ekCrypto =
                \<lparr>Cipher = ''aes-128-ctr'',
                 CipherText = hex_EncodeToString ct,
                 CipherParams = \<lparr>IV = hex_EncodeToString iv\<rparr>,
                 KDF = ''scrypt'',
                 KDFParams =
                   [''n'' \<mapsto> IInt (scryptN ks),
                    ''r'' \<mapsto> IInt (scryptR ks),
                    ''p'' \<mapsto> IInt (scryptP ks),
                    ''dklen'' \<mapsto> IInt (scryptDKLen ks),
                    ''salt'' \<mapsto> IString (hex_EncodeToString salt)],
                 MAC = hex_EncodeToString (keccak256 X (take 16 (drop 16 dk) @ ct))\<rparr>,
              ekId = uuid_String X (Key_Id key),
              ekVersion = 3\<rparr>)\<rparr>"
    unfolding salt_def iv_def by blast
  define cj where "cj =
     \<lparr>Cipher = ''aes-128-ctr'',
      CipherText = hex_EncodeToString ct,
      CipherParams = \<lparr>IV = hex_EncodeToString iv\<rparr>,
      KDF = ''scrypt'',
      KDFParams = (\<lambda>k. map_option (\<lambda>v. json_to_iface (iface_to_json v))
        ([''n'' \<mapsto> IInt (scryptN ks),
          ''r'' \<mapsto> IInt (scryptR ks),
          ''p'' \<mapsto> IInt (scryptP ks),
          ''dklen'' \<mapsto> IInt (scryptDKLen ks),
          ''salt'' \<mapsto> IString (hex_EncodeToString salt)] k)),
      MAC = hex_EncodeToString (keccak256 X (take 16 (drop 16 dk) @ ct))\<rparr>"
  define e where "e =
     \<lparr>ekAddress = hex_EncodeToString (Key_Address key), ekCrypto = cj,
      ekId = uuid_String X (Key_Id key), ekVersion = 3\<rparr>"
  have v3: "int_in_range 3" by (simp add: int_in_range_def)
  have env: "getKey_envelope (snd (StoreKey X ks key auth w)) path (Key_Address key) = Inr e"
    unfolding w' dir e_def cj_def
    by (simp add: getKey_envelope_def getKeyFile_def unmarshal_marshal v3)
  have g: "snd (getKDFKey X (ekCrypto e) auth) = Inr dk"
    unfolding e_def cj_def encryptedKeyJSON.simps
    by (subst getKDFKey_stored [OF rng]) (simp add: kdf)
  have dec: "aesCTRXOR X (take 16 dk) ct iv = Inr (Key_PrivateKey key)"
    using aesCTRXOR_involution [OF enc] .
  have uid: "uuid_Parse X (uuid_String X (Key_Id key)) = Key_Id key"
    using law id16 by (simp add: uuid_lawful_def)
  have "decryptKey X e auth =
     ([OpKDF, OpMAC, OpCipher],
      case aesCTRXOR X (take 16 dk) ct iv of
        Inl err \<Rightarrow> Inl err
      | Inr plainText \<Rightarrow> Inr (plainText, uuid_Parse X (ekId e)))"
  proof (rule decryptKey_success)
    show "ekVersion e = 3" by (simp add: e_def)
    show "Cipher (ekCrypto e) = ''aes-128-ctr''" by (simp add: e_def cj_def)
    show "hex_DecodeString (MAC (ekCrypto e)) = Inr (keccak256 X (take 16 (drop 16 dk) @ ct))"
      by (simp add: e_def cj_def hex_roundtrip)
    show "hex_DecodeString (IV (CipherParams (ekCrypto e))) = Inr iv"
      by (simp add: e_def cj_def hex_roundtrip)
    show "hex_DecodeString (CipherText (ekCrypto e)) = Inr ct"
      by (simp add: e_def cj_def hex_roundtrip)
    show "snd (getKDFKey X (ekCrypto e) auth) = Inr dk" by (rule g)
    show "32 \<le> length dk" by (rule len)
    show "keccak256 X (take 16 (drop 16 dk) @ ct) = keccak256 X (take 16 (drop 16 dk) @ ct)" ..
  qed
  then have "decryptKeyFromFile X (snd (StoreKey X ks key auth w)) path (Key_Address key) auth =
      ([OpKDF, OpMAC, OpCipher], Inr (Key_PrivateKey key, Key_Id key))"
    unfolding decryptKeyFromFile_envelope [OF env]
    by (simp add: dec uid e_def)
  then show ?thesis
    by (simp add: GetKey_def ks' ToECDSA_def)
qed

theorem StoreKey_GetKey_roundtrip_witness:
  "snd (GetKey demo_ext (NewKeyStorePassphrase ''keys'' KDFStandard)
         (snd (StoreKey demo_ext (NewKeyStorePassphrase ''keys'' KDFLight) example_key
                 ''correct horse'' example_world))
         (Key_Address example_key) ''correct horse'') = Inr example_key"
proof -
  have id16: "length (Key_Id example_key) = 16"
    by (simp add: example_key_def)
  have dir: "keysDirPath (NewKeyStorePassphrase ''keys'' KDFStandard) = ''keys''"
    by (simp add: NewKeyStorePassphrase_def)
  show ?thesis
    by (rule StoreKey_GetKey_roundtrip [OF demo_ext_uuid_lawful id16 refl dir example_store_ok])
qed

text \<open>
  Claim C7. For every key and passphrase, a successful \<open>StoreKey\<close> on a store made
  with a safety other than \<open>KDFStandard\<close> (the Light profile) writes, at the key's
  address, an object whose \<open>crypto\<close> member has \<open>kdf\<close> \<open>scrypt\<close>, \<open>kdfparams\<close> with
  \<open>n = 4096\<close>, \<open>r = 8\<close>, \<open>p = 6\<close> and \<open>dklen = 32\<close>, the hexadecimal form of an IV of 16
  bytes, of a ciphertext as long as the private-key bytes, and of a MAC of 32 bytes
  (the digest being one of 32 bytes).
\<close>

theorem StoreKey_light_envelope:
  assumes light: "safety \<noteq> KDFStandard"
    and dig: "digest_32 X"
    and ok: "fst (StoreKey X (NewKeyStorePassphrase path safety) key auth w) = None"
  shows "\<exists>iv cipherText mac.
     (let file = files (snd (StoreKey X (NewKeyStorePassphrase path safety) key auth w))
                   (path, Key_Address key);
          crypto = json_field file ''crypto'';
          kdfparams = json_field crypto ''kdfparams''
      in json_field crypto ''kdf'' = Some (JStr ''scrypt'') \<and>
         json_field kdfparams ''n'' = Some (JNum (Float64 4096 0)) \<and>
         json_field kdfparams ''r'' = Some (JNum (Float64 8 0)) \<and>
         json_field kdfparams ''p'' = Some (JNum (Float64 6 0)) \<and>
         json_field kdfparams ''dklen'' = Some (JNum (Float64 32 0)) \<and>
         json_field (json_field crypto ''cipherparams'') ''iv'' = Some (JStr (hex_EncodeToString iv)) \<and>
         length iv = 16 \<and>
         json_field crypto ''ciphertext'' = Some (JStr (hex_EncodeToString cipherText)) \<and>
         length cipherText = length (FromECDSA (Key_PrivateKey key)) \<and>
         json_field crypto ''mac'' = Some (JStr (hex_EncodeToString mac)) \<and>
         length mac = 32)"
proof -
  define ks where "ks = NewKeyStorePassphrase path safety"
  have prof: "keysDirPath ks = path" "scryptN ks = 4096" "scryptR ks = 8" "scryptP ks = 6"
      "scryptDKLen ks = 32"
    using light
    by (simp_all add: ks_def NewKeyStorePassphrase_def lightScryptN_def lightScryptP_def
        scryptR_const_def scryptDKLen_const_def)
  from ok have ok': "fst (StoreKey X ks key auth w) = None"
    by (simp add: ks_def)
  from StoreKey_success [OF ok'] obtain dk ct where
    ent: "48 \<le> length (entropy w)"
    and enc: "aesCTRXOR X (take 16 dk) (Key_PrivateKey key) (take 16 (drop 32 (entropy w))) = Inr ct"
    and w': "snd (StoreKey X ks key auth w) =
       w\<lparr>entropy := drop 48 (entropy w),
         files := (files w)((keysDirPath ks, Key_Address key) \<mapsto>
           json_Marshal
             \<lparr>ekAddress = hex_EncodeToString (Key_Address key),
              ekCrypto =
                \<lparr>Cipher = ''aes-128-ctr'',
                 CipherText = hex_EncodeToString ct,
                 CipherParams = \<lparr>IV = hex_EncodeToString (take 16 (drop 32 (entropy w)))\<rparr>,
                 KDF = ''scrypt'',
                 KDFParams =
                   [''n'' \<mapsto> IInt (scryptN ks),
                    ''r'' \<mapsto> IInt (scryptR ks),
                    ''p'' \<mapsto> IInt (scryptP ks),
                    ''dklen'' \<mapsto> IInt (scryptDKLen ks),
                    ''salt'' \<mapsto> IString (hex_EncodeToString (take 32 (entropy w)))],
                 MAC = hex_EncodeToString (keccak256 X (take 16 (drop 16 dk) @ ct))\<rparr>,
              ekId = uuid_String X (Key_Id key),
              ekVersion = 3\<rparr>)\<rparr>"
    by blast
  have l1: "length (take 16 (drop 32 (entropy w))) = 16"
    using ent by simp
  have l2: "length ct = length (FromECDSA (Key_PrivateKey key))"
    using aesCTRXOR_length [OF enc] by (simp add: FromECDSA_def)
  have l3: "length (keccak256 X (take 16 (drop 16 dk) @ ct)) = 32"
    using dig by (simp add: digest_32_def)
  show ?thesis
    apply (rule exI [of _ "take 16 (drop 32 (entropy w))"])
    apply (rule exI [of _ ct])
    apply (rule exI [of _ "keccak256 X (take 16 (drop 16 dk) @ ct)"])
    unfolding ks_def [symmetric] w'
    using l1 l2 l3
    by (simp add: prof json_Marshal_def marshal_cryptoJSON_def json_field_def)
qed

theorem StoreKey_light_envelope_witness:
  "\<exists>iv cipherText mac.
     (let file = files (snd (StoreKey demo_ext (NewKeyStorePassphrase ''keys'' KDFLight) example_key
                               ''correct horse'' example_world))
                   (''keys'', Key_Address example_key);
          crypto = json_field file ''crypto'';
          kdfparams = json_field crypto ''kdfparams''
      in json_field crypto ''kdf'' = Some (JStr ''scrypt'') \<and>
         json_field kdfparams ''n'' = Some (JNum (Float64 4096 0)) \<and>
         json_field kdfparams ''r'' = Some (JNum (Float64 8 0)) \<and>
         json_field kdfparams ''p'' = Some (JNum (Float64 6 0)) \<and>
         json_field kdfparams ''dklen'' = Some (JNum (Float64 32 0)) \<and>
         json_field (json_field crypto ''cipherparams'') ''iv'' = Some (JStr (hex_EncodeToString iv)) \<and>
         length iv = 16 \<and>
         json_field crypto ''ciphertext'' = Some (JStr (hex_EncodeToString cipherText)) \<and>
         length cipherText = length (FromECDSA (Key_PrivateKey example_key)) \<and>
         json_field crypto ''mac'' = Some (JStr (hex_EncodeToString mac)) \<and>
         length mac = 32)"
proof -
  have light: "KDFLight \<noteq> KDFStandard"
    by (simp add: KDFLight_def KDFStandard_def)
  show ?thesis
    by (rule StoreKey_light_envelope [OF light demo_ext_digest_32 example_store_ok])
qed

end
